theory Spec2Isabelle
  imports Complex_Main "HOL-Library.AList"
begin

section \<open>Python values, exceptions and tracebacks\<close>

text \<open>
  The values that end up in a result row: \<open>int\<close>, \<open>float\<close>, \<open>str\<close>, \<open>None\<close> and
  nested lists. Floats are kept as exact rationals: the binary representation error of
  a Python float is not part of this development.
\<close>

datatype pyval = PInt int | PFloat rat | PStr string | PNone | PList "pyval list"

text \<open>
  One entry of \<open>traceback.extract_tb\<close>: \<open>filename, line, func, line_code\<close> in the
  words of \<open>analyse_error\<close>. The source text of a frame is the empty string when the
  interpreter cannot read the file, and \<open>None\<close> only for a frame without a line number.
\<close>

record frame =
  filename :: string
  line :: int
  func :: string
  line_code :: "string option"

text \<open>
  A raised exception: the name of its class (\<open>type(e).__name__\<close>), whether it is an
  instance of \<open>Exception\<close> (\<open>KeyboardInterrupt\<close>, \<open>SystemExit\<close> and \<open>GeneratorExit\<close> derive
  from \<open>BaseException\<close> only), and the frames of its traceback, outermost first, from the
  function that lets it out downwards.
\<close>

record exn =
  exc_type :: string
  is_exception :: bool
  tb :: "frame list"

text \<open>An instance of a subclass of \<open>Exception\<close>, such as the built-in errors, just raised.\<close>

definition py_exc :: "string \<Rightarrow> exn" where
  "py_exc n = \<lparr>exc_type = n, is_exception = True, tb = []\<rparr>"

text \<open>An instance of a class that derives from \<open>BaseException\<close> only.\<close>

definition py_base_exc :: "string \<Rightarrow> exn" where
  "py_base_exc n = \<lparr>exc_type = n, is_exception = False, tb = []\<rparr>"

text \<open>A computation over a state that returns a value or raises.\<close>

type_synonym ('s, 'a) py = "'s \<Rightarrow> (exn + 'a) \<times> 's"

definition ret :: "'a \<Rightarrow> ('s, 'a) py" where
  "ret a s = (Inr a, s)"

definition raise :: "exn \<Rightarrow> ('s, 'a) py" where
  "raise e s = (Inl e, s)"

definition bnd :: "('s, 'a) py \<Rightarrow> ('a \<Rightarrow> ('s, 'b) py) \<Rightarrow> ('s, 'b) py" where
  "bnd m f s = (case m s of (Inl e, s') \<Rightarrow> (Inl e, s') | (Inr a, s') \<Rightarrow> f a s')"

section \<open>The file system and the CSV helpers (usefull/helpers.py)\<close>

text \<open>
  A path names a directory or a regular file; a CSV file is the list of the rows written
  to it, each row the list of the cells handed to the writer. How the \<open>csv\<close> module
  renders a cell as text is outside this development. The paths stored in the map are
  written without a separator at the end.
\<close>

datatype node = Dir | File "pyval list list"

type_synonym fs = "string \<Rightarrow> node option"

definition isfile :: "fs \<Rightarrow> string \<Rightarrow> bool" where
  "isfile fs p = (case fs p of Some (File _) \<Rightarrow> True | _ \<Rightarrow> False)"

definition rows_of :: "fs \<Rightarrow> string \<Rightarrow> pyval list list" where
  "rows_of fs p = (case fs p of Some (File rs) \<Rightarrow> rs | _ \<Rightarrow> [])"

definition dirname :: "string \<Rightarrow> string" where
  "dirname p = (if CHR ''/'' \<in> set p
                then rev (tl (dropWhile (\<lambda>c. c \<noteq> CHR ''/'') (rev p))) else [])"

text \<open>
  What \<open>open\<close> checks before it hands out a file object for writing. The parent
  directory must exist (the working directory and the root always do); the empty path
  names nothing; a path that ends in a separator, or that names a directory, cannot be
  opened as a file. Paths are taken as written (repeated separators inside a path and
  dot components are not normalised), and permissions are not modelled.
\<close>

definition parent_check :: "fs \<Rightarrow> string \<Rightarrow> exn option" where
  "parent_check fs p =
     (if dirname p = [] then None
      else (case fs (dirname p) of
              Some Dir \<Rightarrow> None
            | Some (File _) \<Rightarrow> Some (py_exc ''NotADirectoryError'')
            | None \<Rightarrow> Some (py_exc ''FileNotFoundError'')))"

definition strip_sep :: "string \<Rightarrow> string" where
  "strip_sep p = rev (dropWhile (\<lambda>c. c = CHR ''/'') (rev p))"

definition open_check :: "fs \<Rightarrow> string \<Rightarrow> exn option" where
  "open_check fs p =
     (if p = [] then Some (py_exc ''FileNotFoundError'')
      else if last p = CHR ''/''
      then (if strip_sep p = [] then Some (py_exc ''IsADirectoryError'')
            else (case parent_check fs (strip_sep p) of
                    Some e \<Rightarrow> Some e
                  | None \<Rightarrow> Some (py_exc ''IsADirectoryError'')))
      else (case fs p of
              Some Dir \<Rightarrow> Some (py_exc ''IsADirectoryError'')
            | _ \<Rightarrow> parent_check fs p))"

text \<open>\<open>open(p, "w")\<close>: creates the file or truncates it.\<close>

definition open_w :: "string \<Rightarrow> (fs, unit) py" where
  "open_w p fs = (case open_check fs p of
                    Some e \<Rightarrow> (Inl e, fs)
                  | None \<Rightarrow> (Inr (), fs(p \<mapsto> File [])))"

text \<open>\<open>open(p, "a")\<close>: creates the file when it is absent, keeps its content otherwise.\<close>

definition open_a :: "string \<Rightarrow> (fs, unit) py" where
  "open_a p fs = (case open_check fs p of
                    Some e \<Rightarrow> (Inl e, fs)
                  | None \<Rightarrow> (Inr (), fs(p \<mapsto> File (rows_of fs p))))"

text \<open>\<open>writer.writerow(row)\<close> on an open file: the row goes to the end.\<close>

definition writerow :: "string \<Rightarrow> pyval list \<Rightarrow> (fs, unit) py" where
  "writerow p row fs = (Inr (), fs(p \<mapsto> File (rows_of fs p @ [row])))"

text \<open>
  \<open>writer.writerows(data)\<close> writes the elements in turn. An element that is a list is a
  row; a string is iterated character by character; any other element makes the writer
  raise \<open>csv.Error\<close>, after the rows before it have been written.
\<close>

fun writerows :: "string \<Rightarrow> pyval list \<Rightarrow> (fs, unit) py" where
  "writerows p [] fs = (Inr (), fs)"
| "writerows p (PList row # rest) fs = writerows p rest (snd (writerow p row fs))"
| "writerows p (PStr s # rest) fs =
     writerows p rest (snd (writerow p (map (\<lambda>c. PStr [c]) s) fs))"
| "writerows p (_ # rest) fs = (Inl (py_exc ''Error''), fs)"

definition create_csv_file :: "string \<Rightarrow> pyval list \<Rightarrow> (fs, unit) py" where
  "create_csv_file file_path header fs =
     (if \<not> isfile fs file_path
      then bnd (open_w file_path) (\<lambda>_. writerow file_path header) fs
      else (Inr (), fs))"

definition is_list :: "pyval \<Rightarrow> bool" where
  "is_list v = (case v of PList _ \<Rightarrow> True | _ \<Rightarrow> False)"

text \<open>
  \<open>append_to_csv_file\<close>: the file is opened first, then \<open>data[0]\<close> is read, which raises
  \<open>IndexError\<close> on an empty list.
\<close>

definition append_to_csv_file :: "string \<Rightarrow> pyval list \<Rightarrow> (fs, unit) py" where
  "append_to_csv_file file_path data fs =
     bnd (open_a file_path)
       (\<lambda>_. case data of
               [] \<Rightarrow> raise (py_exc ''IndexError'')
             | d0 # _ \<Rightarrow> (if is_list d0 then writerows file_path data
                         else writerow file_path data)) fs"

section \<open>Time measurement (usefull/helpers.py, class TimeMeasure)\<close>

text \<open>
  Python's \<open>round(x, 2)\<close> (ties go to the even neighbour) and \<open>int(x)\<close> (truncation
  towards zero), on exact rationals.
\<close>

definition round2 :: "rat \<Rightarrow> rat" where
  "round2 x =
     (let y = x * 100; f = \<lfloor>y\<rfloor>; d = y - of_int f
      in of_int (if d < 1 / 2 then f
                 else if 1 / 2 < d then f + 1
                 else if even f then f else f + 1) / 100)"

definition py_int :: "rat \<Rightarrow> int" where
  "py_int x = (if 0 \<le> x then \<lfloor>x\<rfloor> else \<lceil>x\<rceil>)"

text \<open>
  The attributes of a \<open>TimeMeasure\<close>; \<open>elapsed\<close> is the private \<open>_elapsed_seconds\<close>.
  The logging function is the default \<open>lambda _: None\<close>, so the messages built for it
  are dropped; building the message of \<open>stop\<close> still reads the property
  \<open>elapsed_seconds\<close>.
\<close>

record TimeMeasure =
  start_time :: rat
  end_time :: rat
  elapsed :: rat

definition TimeMeasure_init :: TimeMeasure where
  "TimeMeasure_init = \<lparr>start_time = 0, end_time = 0, elapsed = 0\<rparr>"

text \<open>
  The clock \<open>datetime.now().timestamp()\<close> is a capability of the surrounding system:
  \<open>now\<close> reads it in a state \<open>'s\<close> and returns the state after the reading.
\<close>

definition elapsed_seconds ::
  "('s \<Rightarrow> rat \<times> 's) \<Rightarrow> TimeMeasure \<Rightarrow> 's \<Rightarrow> (rat \<times> TimeMeasure) \<times> 's" where
  "elapsed_seconds now tm s =
     (if end_time tm = 0
      then (case now s of
              (t, s') \<Rightarrow> ((round2 (t - start_time tm), tm\<lparr>elapsed := t - start_time tm\<rparr>), s'))
      else ((round2 (end_time tm - start_time tm),
             tm\<lparr>elapsed := end_time tm - start_time tm\<rparr>), s))"

definition set_elapsed_seconds :: "rat \<Rightarrow> TimeMeasure \<Rightarrow> TimeMeasure" where
  "set_elapsed_seconds elapsed_sec tm = tm\<lparr>elapsed := elapsed_sec\<rparr>"

definition start :: "('s \<Rightarrow> rat \<times> 's) \<Rightarrow> TimeMeasure \<Rightarrow> 's \<Rightarrow> (rat \<times> TimeMeasure) \<times> 's" where
  "start now tm s = (case now s of (t, s') \<Rightarrow> ((t, tm\<lparr>start_time := t\<rparr>), s'))"

text \<open>
  \<open>stop\<close>: the end time is read, the setter stores the truncated difference, the log
  message reads the property (which recomputes \<open>elapsed\<close>), and the property is read
  once more for the return value.
\<close>

definition stop :: "('s \<Rightarrow> rat \<times> 's) \<Rightarrow> TimeMeasure \<Rightarrow> 's \<Rightarrow> (rat \<times> TimeMeasure) \<times> 's" where
  "stop now tm s =
     (case now s of
        (t, s1) \<Rightarrow>
          (let tm1 = tm\<lparr>end_time := t\<rparr>;
               tm2 = set_elapsed_seconds (of_int (py_int (end_time tm1 - start_time tm1))) tm1
           in (case elapsed_seconds now tm2 s1 of
                 ((_, tm3), s2) \<Rightarrow> elapsed_seconds now tm3 s2)))"

section \<open>Drivers (usefull/driver.py)\<close>

text \<open>\<open>os.path.join\<close> of a directory and an entry name.\<close>

definition path_join :: "string \<Rightarrow> string \<Rightarrow> string" where
  "path_join a b =
     (if b \<noteq> [] \<and> hd b = CHR ''/'' then b
      else if a = [] \<or> last a = CHR ''/'' then a @ b
      else a @ ''/'' @ b)"

text \<open>
  \<open>get_driver\<close>: \<open>listdir\<close> is \<open>os.listdir\<close>, which raises when the directory cannot be
  read; \<open>drivers[0]\<close> raises \<open>IndexError\<close> when the directory is empty.
\<close>

definition get_driver :: "(string \<Rightarrow> exn + string list) \<Rightarrow> string \<Rightarrow> exn + string" where
  "get_driver listdir directory_path =
     (case listdir directory_path of
        Inl e \<Rightarrow> Inl e
      | Inr drivers \<Rightarrow>
          (case drivers of
             [] \<Rightarrow> Inl (py_exc ''IndexError'')
           | d # _ \<Rightarrow> Inr (path_join directory_path d)))"

text \<open>
  The default \<open>executable_path\<close> of both classes is the value of a \<open>get_driver\<close> call
  in the parameter list, which Python evaluates once, when the class body is executed
  on import of the module: first for \<open>ChromeDriver\<close>, then for \<open>FirefoxDriver\<close>.
\<close>

record driver_module =
  chrome_executable_path :: string
  gecko_executable_path :: string

definition import_driver_module :: "(string \<Rightarrow> exn + string list) \<Rightarrow> exn + driver_module" where
  "import_driver_module listdir =
     (case get_driver listdir ''drivers/chrome'' of
        Inl e \<Rightarrow> Inl e
      | Inr c \<Rightarrow>
          (case get_driver listdir ''drivers/gecko'' of
             Inl e \<Rightarrow> Inl e
           | Inr g \<Rightarrow> Inr \<lparr>chrome_executable_path = c, gecko_executable_path = g\<rparr>))"

text \<open>
  What the interpreter holds once the modules are loaded: the two default paths, and the
  file name under which it loaded \<open>test_expandable.py\<close>, which is the name its tracebacks
  report for the functions of that module.
\<close>

record modules = driver_module +
  scenario_file :: string

text \<open>
  The options object handed to the browser: its command-line arguments and its
  preferences (a dictionary). \<open>Options()\<close> starts with neither.
\<close>

record browser_options =
  arguments :: "string list"
  preferences :: "(string \<times> string) list"

definition Options :: browser_options where
  "Options = \<lparr>arguments = [], preferences = []\<rparr>"

definition add_argument :: "string \<Rightarrow> browser_options \<Rightarrow> browser_options" where
  "add_argument a opts = opts\<lparr>arguments := arguments opts @ [a]\<rparr>"

definition set_preference :: "string \<Rightarrow> string \<Rightarrow> browser_options \<Rightarrow> browser_options" where
  "set_preference k v opts = opts\<lparr>preferences := AList.update k v (preferences opts)\<rparr>"

text \<open>
  The attributes a driver object gets from the classes of this module. \<open>window_size\<close>
  is the attribute the Firefox headless setter assigns.
\<close>

record driver =
  browser :: string
  options :: browser_options
  window_size :: "(int \<times> int) option"

text \<open>
  The browser-automation engine, as a test double over a state \<open>'w\<close>: the parent
  constructors, the session calls the scenario makes, the clock and the sleep.
  An exception raised by one of its calls carries the frames below the function of
  \<open>test_expandable.py\<close> that made the call: those of the methods of \<open>BaseDriver\<close> the call
  went through and those of the engine. \<open>time.sleep\<close> raises when a signal interrupts it.
\<close>

datatype condition = presence_of_element_located | frame_to_be_available_and_switch_to_it

datatype waited = WebElement nat | PyTrue

record 'w webdriver =
  wd_Chrome :: "string \<Rightarrow> browser_options \<Rightarrow> ('w, unit) py"
  wd_Firefox :: "string \<Rightarrow> browser_options \<Rightarrow> ('w, unit) py"
  wd_implicitly_wait :: "int \<Rightarrow> ('w, unit) py"
  wd_set_window_size :: "int \<Rightarrow> int \<Rightarrow> ('w, unit) py"
  wd_get :: "string \<Rightarrow> ('w, unit) py"
  wd_until :: "rat \<Rightarrow> string list \<Rightarrow> condition \<Rightarrow> string \<Rightarrow> ('w, waited) py"
  wd_parent_frame :: "('w, unit) py"
  wd_default_content :: "('w, unit) py"
  wd_is_displayed :: "nat \<Rightarrow> ('w, bool) py"
  wd_click :: "nat \<Rightarrow> ('w, unit) py"
  wd_execute_script :: "string \<Rightarrow> waited \<Rightarrow> ('w, unit) py"
  wd_close :: "'w \<Rightarrow> 'w"
  wd_sleep :: "rat \<Rightarrow> ('w, unit) py"
  wd_now :: "'w \<Rightarrow> rat \<times> 'w"

text \<open>
  A worker process: the engine's state, what has been printed, and how many times
  \<open>close\<close> has been called on the driver.
\<close>

datatype message = Mode_headless string | Mode_normal string | Test_failed_at frame

record 'w proc =
  ext :: 'w
  stdout :: "message list"
  close_calls :: nat

definition lift :: "('w, 'a) py \<Rightarrow> ('w proc, 'a) py" where
  "lift m p = (case m (ext p) of (r, w) \<Rightarrow> (r, p\<lparr>ext := w\<rparr>))"

definition print :: "message \<Rightarrow> 'w proc \<Rightarrow> 'w proc" where
  "print m p = p\<lparr>stdout := stdout p @ [m]\<rparr>"

definition now_p :: "'w webdriver \<Rightarrow> 'w proc \<Rightarrow> rat \<times> 'w proc" where
  "now_p D p = (case wd_now D (ext p) of (t, w) \<Rightarrow> (t, p\<lparr>ext := w\<rparr>))"

text \<open>
  Modelled from the spec: \<open>close\<close> is a method of the engine's session class, which is
  not part of the repository. The spec gives it no failure mode ("releases the session;
  safe to call even after prior failure"), so \<open>wd_close\<close> always returns. The call is
  counted in \<open>close_calls\<close>.
\<close>

definition close :: "'w webdriver \<Rightarrow> 'w proc \<Rightarrow> 'w proc" where
  "close D p = p\<lparr>ext := wd_close D (ext p), close_calls := Suc (close_calls p)\<rparr>"

subsection \<open>BaseDriver\<close>

definition wait_executor ::
  "'w webdriver \<Rightarrow> rat \<Rightarrow> string list \<Rightarrow> condition \<Rightarrow> string \<Rightarrow> ('w, waited) py" where
  "wait_executor D implicit_wait_time ignored_exceptions waiting_function selector =
     wd_until D implicit_wait_time ignored_exceptions waiting_function selector"

definition get_element_by_css_selector ::
  "'w webdriver \<Rightarrow> string \<Rightarrow> rat \<Rightarrow> string list \<Rightarrow> condition \<Rightarrow> ('w, waited) py" where
  "get_element_by_css_selector D selector implicit_wait_time ignored_exceptions waiting_function =
     wait_executor D implicit_wait_time ignored_exceptions waiting_function selector"

definition switch_to_iframe_by_css_selector ::
  "'w webdriver \<Rightarrow> string \<Rightarrow> rat \<Rightarrow> ('w, waited) py" where
  "switch_to_iframe_by_css_selector D selector implicit_wait_time =
     wait_executor D implicit_wait_time [] frame_to_be_available_and_switch_to_it selector"

definition switch_back_to_parent_frame :: "'w webdriver \<Rightarrow> ('w, unit) py" where
  "switch_back_to_parent_frame D = wd_parent_frame D"

definition switch_back_to_default_content :: "'w webdriver \<Rightarrow> ('w, unit) py" where
  "switch_back_to_default_content D = wd_default_content D"

subsection \<open>ChromeDriver and FirefoxDriver\<close>

text \<open>
  The property setters. A user agent that is \<open>None\<close> or empty is falsy and leaves the
  options alone.
\<close>

definition truthy_str :: "string option \<Rightarrow> bool" where
  "truthy_str a = (case a of None \<Rightarrow> False | Some s \<Rightarrow> s \<noteq> [])"

definition Chrome_set_user_agent :: "string option \<Rightarrow> driver \<Rightarrow> driver" where
  "Chrome_set_user_agent agent self =
     (if truthy_str agent
      then self\<lparr>options := add_argument (''--user-agent='' @ the agent) (options self)\<rparr>
      else self)"

definition Chrome_set_headless :: "bool \<Rightarrow> driver \<Rightarrow> 'w proc \<Rightarrow> driver \<times> 'w proc" where
  "Chrome_set_headless is_headless self p =
     (if is_headless
      then (self\<lparr>options := add_argument ''--window-size=1920,1080''
                               (add_argument ''headless'' (options self))\<rparr>,
            print (Mode_headless ''WebDriver: Mode = Headless.'') p)
      else (self, print (Mode_normal ''WebDriver: Mode = Normal.'') p))"

definition Firefox_set_headless :: "bool \<Rightarrow> driver \<Rightarrow> 'w proc \<Rightarrow> driver \<times> 'w proc" where
  "Firefox_set_headless is_headless self p =
     (if is_headless
      then (self\<lparr>options := add_argument ''headless'' (options self),
                 window_size := Some (1920, 1080)\<rparr>,
            print (Mode_headless (''WebDriver '' @ browser self @ '': Mode = Headless.'')) p)
      else (self, print (Mode_normal (''WebDriver '' @ browser self @ '': Mode = Normal.'')) p))"

definition Firefox_set_user_agent :: "string option \<Rightarrow> driver \<Rightarrow> driver" where
  "Firefox_set_user_agent agent self =
     (if truthy_str agent
      then self\<lparr>options := set_preference ''general.useragent.override'' (the agent) (options self)\<rparr>
      else self)"

text \<open>
  \<open>__init__\<close> of the two classes. An options object of the engine defines neither
  \<open>__bool__\<close> nor \<open>__len__\<close>, so \<open>if options:\<close> is true exactly when one is passed.
\<close>

definition ChromeDriver_init ::
  "'w webdriver \<Rightarrow> string \<Rightarrow> bool \<Rightarrow> int \<Rightarrow> string option \<Rightarrow> browser_options option
     \<Rightarrow> ('w proc, driver) py" where
  "ChromeDriver_init D executable_path headless implicit_wait user_agent opts p =
     (case (case opts of
              Some given \<Rightarrow> (\<lparr>browser = ''chrome'', options = given, window_size = None\<rparr>, p)
            | None \<Rightarrow>
                Chrome_set_headless headless
                  (Chrome_set_user_agent user_agent
                     \<lparr>browser = ''chrome'', options = Options, window_size = None\<rparr>) p) of
        (self, p1) \<Rightarrow>
          bnd (lift (wd_Chrome D executable_path (options self)))
            (\<lambda>_. bnd (lift (wd_implicitly_wait D implicit_wait)) (\<lambda>_. ret self)) p1)"

definition FirefoxDriver_init ::
  "'w webdriver \<Rightarrow> string \<Rightarrow> bool \<Rightarrow> int \<Rightarrow> string option \<Rightarrow> browser_options option
     \<Rightarrow> ('w proc, driver) py" where
  "FirefoxDriver_init D executable_path headless implicit_wait user_agent opts p =
     (case (case opts of
              Some given \<Rightarrow> (\<lparr>browser = ''firefox'', options = given, window_size = None\<rparr>, p)
            | None \<Rightarrow>
                (case Firefox_set_headless headless
                        \<lparr>browser = ''firefox'', options = Options, window_size = None\<rparr> p of
                   (self, p') \<Rightarrow> (Firefox_set_user_agent user_agent self, p'))) of
        (self, p1) \<Rightarrow>
          bnd (lift (wd_Firefox D executable_path (options self)))
            (\<lambda>_. bnd (lift (wd_implicitly_wait D implicit_wait))
              (\<lambda>_. bnd (lift (wd_set_window_size D 360 640)) (\<lambda>_. ret self))) p1)"

datatype driver_class = ChromeDriver | FirefoxDriver

text \<open>The registry is a dictionary; its order is the order of insertion.\<close>

definition AvailableBrowserDrivers :: "(string \<times> driver_class) list" where
  "AvailableBrowserDrivers = [(''chrome'', ChromeDriver), (''firefox'', FirefoxDriver)]"

definition AvailableUserAgents :: "string list" where
  "AvailableUserAgents =
     [''Mozilla/5.0 (iPhone; U; CPU iPhone OS 3_0 like Mac OS X; en-us) AppleWebKit/528.18 (KHTML, like Gecko) Version/4.0 Mobile/7A341 Safari/528.16'']"

text \<open>
  \<open>driver_class(user_agent=user_agent)\<close>: every other parameter takes its default; the
  default paths are those computed when the module was imported.
\<close>

definition instantiate ::
  "'w webdriver \<Rightarrow> modules \<Rightarrow> driver_class \<Rightarrow> string option \<Rightarrow> ('w proc, driver) py" where
  "instantiate D M driver_class user_agent =
     (case driver_class of
        ChromeDriver \<Rightarrow>
          ChromeDriver_init D (chrome_executable_path M) False 10 user_agent None
      | FirefoxDriver \<Rightarrow>
          FirefoxDriver_init D (gecko_executable_path M) False 15 user_agent None)"

section \<open>The scenario (css_selectors.py, test_expandable.py)\<close>

definition expandable_iframe :: string where
  "expandable_iframe = ''body > div.ad-placeholder-wrapper.show-overflow > div > div > div > iframe''"

definition modal_iframe :: string where
  "modal_iframe = ''body > div.notranslate.celtra-expanded-ad > iframe''"

definition modal_div :: string where
  "modal_div = ''#celtra-object-37''"

definition expendable_button :: string where
  "expendable_button = ''#celtra-banner''"

definition celtra_logo :: string where
  "celtra_logo = ''#celtra-object-41''"

definition close_modal_button :: string where
  "close_modal_button = ''#celtra-modal > img.celtra-close-button.touchable.celtra-close-button-up''"

text \<open>
  An exception that passes through a function gets that function's frame in front of
  its traceback. The frames of the functions of \<open>test_expandable.py\<close> carry the file
  name \<open>file\<close> under which the interpreter loaded that module.
\<close>

definition via :: "frame \<Rightarrow> ('s, 'a) py \<Rightarrow> ('s, 'a) py" where
  "via f m s = (case m s of (Inl e, s') \<Rightarrow> (Inl (e\<lparr>tb := f # tb e\<rparr>), s') | (Inr a, s') \<Rightarrow> (Inr a, s'))"

definition sf :: "string \<Rightarrow> int \<Rightarrow> string \<Rightarrow> frame" where
  "sf file n code = \<lparr>filename = file, line = n, func = ''test_scenario'', line_code = Some code\<rparr>"

definition py_assert :: "bool \<Rightarrow> ('s, unit) py" where
  "py_assert b = (if b then ret () else raise (py_exc ''AssertionError''))"

text \<open>
  What a wait returns is truthy (the wait only returns truthy values). The methods of
  an element exist on a \<open>WebElement\<close>; on \<open>True\<close> the attribute lookup raises.
\<close>

definition truthy :: "waited \<Rightarrow> bool" where
  "truthy v = (case v of WebElement _ \<Rightarrow> True | PyTrue \<Rightarrow> True)"

definition is_displayed :: "'w webdriver \<Rightarrow> waited \<Rightarrow> ('w, bool) py" where
  "is_displayed D v =
     (case v of WebElement n \<Rightarrow> wd_is_displayed D n | PyTrue \<Rightarrow> raise (py_exc ''AttributeError''))"

definition click :: "'w webdriver \<Rightarrow> waited \<Rightarrow> ('w, unit) py" where
  "click D v =
     (case v of WebElement n \<Rightarrow> wd_click D n | PyTrue \<Rightarrow> raise (py_exc ''AttributeError''))"

definition sleep :: "'w webdriver \<Rightarrow> rat \<Rightarrow> ('w, unit) py" where
  "sleep D secs = wd_sleep D secs"

definition test_scenario :: "string \<Rightarrow> 'w webdriver \<Rightarrow> ('w, unit) py" where
  \<open>test_scenario file D =
     bnd (via (sf file 21 ''driver.get("http://test.celtra.com/preview/f576e12f#overrides.deviceInfo.deviceType=Phone")  # Hardcoded :('')
            (wd_get D ''http://test.celtra.com/preview/f576e12f#overrides.deviceInfo.deviceType=Phone''))
     (\<lambda>_. bnd (via (sf file 27 ''driver.switch_to_iframe_by_css_selector(selectors.expandable_iframe)'')
            (switch_to_iframe_by_css_selector D expandable_iframe 10))
     (\<lambda>_. bnd (via (sf file 29 ''banner_element = driver.get_element_by_css_selector(selectors.expendable_button)'')
            (get_element_by_css_selector D expendable_button 10 [] presence_of_element_located))
     (\<lambda>banner_element.
         bnd (via (sf file 30 ''assert banner_element  # Check if not None'')
            (py_assert (truthy banner_element)))
     (\<lambda>_. bnd (via (sf file 31 ''assert banner_element.is_displayed()  # Check if displayed'')
            (bnd (is_displayed D banner_element) py_assert))
     (\<lambda>_. bnd (via (sf file 33 ''banner_element.click()'') (click D banner_element))
     (\<lambda>_. bnd (via (sf file 35 ''driver.switch_back_to_parent_frame()'') (switch_back_to_parent_frame D))
     (\<lambda>_. bnd (via (sf file 36 ''time.sleep(1.5)  # Modal opening animation takes about 1.5s  (Should not take more)'')
            (sleep D (3 / 2)))
     (\<lambda>_. bnd (via (sf file 40 ''driver.switch_to_iframe_by_css_selector(selectors.modal_iframe)'')
            (switch_to_iframe_by_css_selector D modal_iframe 10))
     (\<lambda>_. bnd (via (sf file 42 ''modal_div_element = driver.get_element_by_css_selector(selectors.modal_div)'')
            (get_element_by_css_selector D modal_div 10 [] presence_of_element_located))
     (\<lambda>modal_div_element.
         bnd (via (sf file 43 ''assert modal_div_element.is_displayed()'')
            (bnd (is_displayed D modal_div_element) py_assert))
     (\<lambda>_. bnd (via (sf file 46 ''celtra_logo = driver.get_element_by_css_selector(selectors.celtra_logo)'')
            (get_element_by_css_selector D celtra_logo 10 [] presence_of_element_located))
     (\<lambda>logo.
         bnd (via (sf file 47 ''assert celtra_logo'') (py_assert (truthy logo)))
     (\<lambda>_. bnd (via (sf file 48 ''assert celtra_logo.is_displayed()'')
            (bnd (is_displayed D logo) py_assert))
     (\<lambda>_. bnd (via (sf file 49 ''celtra_logo.click()'') (click D logo))
     (\<lambda>_. bnd (via (sf file 51 ''assert not celtra_logo.is_displayed()'')
            (bnd (is_displayed D logo) (\<lambda>b. py_assert (\<not> b))))
     (\<lambda>_. bnd (via (sf file 54 ''close_modal_button = driver.get_element_by_css_selector(selectors.close_modal_button)'')
            (get_element_by_css_selector D close_modal_button 10 [] presence_of_element_located))
     (\<lambda>button.
         bnd (via (sf file 55 ''assert close_modal_button'') (py_assert (truthy button)))
     (\<lambda>_. bnd (via (sf file 57 ''driver.execute_script('arguments[0].click()', close_modal_button)'')
            (wd_execute_script D ''arguments[0].click()'' button))
     (\<lambda>_. via (sf file 59 ''assert not modal_div_element.is_displayed()'')
            (bnd (is_displayed D modal_div_element) (\<lambda>b. py_assert (\<not> b))))))))))))))))))))))\<close>

section \<open>Recording one execution (usefull/helpers.py, test_expandable.py)\<close>

text \<open>
  \<open>analyse_error\<close> reads the traceback of the exception being handled, given here as
  the list \<open>traceback.extract_tb\<close> returns, and takes its last entry; \<open>[-1]\<close> raises
  \<open>IndexError\<close> on an empty list.
\<close>

definition line_code_val :: "string option \<Rightarrow> pyval" where
  "line_code_val c = (case c of None \<Rightarrow> PNone | Some t \<Rightarrow> PStr t)"

definition analyse_error :: "frame list \<Rightarrow> bool \<Rightarrow> ('w proc, pyval list) py" where
  "analyse_error frames output p =
     (if frames = [] then (Inl (py_exc ''IndexError''), p)
      else (let fr = last frames
            in (Inr [PStr (filename fr), PInt (line fr), PStr (func fr), line_code_val (line_code fr)],
                if output then print (Test_failed_at fr) p else p)))"

definition recorder_frame :: "string \<Rightarrow> frame" where
  "recorder_frame file = \<lparr>filename = file, line = 88, func = ''test_expandable'',
                           line_code = Some ''test_scenario(driver)''\<rparr>"

text \<open>
  \<open>test_expandable\<close>. The driver is built outside the \<open>try\<close>. The handler is
  \<open>except Exception\<close>: it takes the exceptions that are instances of \<open>Exception\<close>, and
  any other exception passes through the \<open>finally\<close> block and leaves the function. In
  the handler the returned list is evaluated before the \<open>finally\<close> block runs; on the
  normal path the list is evaluated after it. An exception raised inside the handler
  leaves through the \<open>finally\<close> block as well.
\<close>

definition test_expandable ::
  "'w webdriver \<Rightarrow> modules \<Rightarrow> driver_class \<Rightarrow> ('w proc, pyval list) py" where
  "test_expandable D M driver_class p =
     (let user_agent = AvailableUserAgents ! 0 in
      case instantiate D M driver_class (Some user_agent) p of
        (Inl e, p1) \<Rightarrow> (Inl e, p1)
      | (Inr driver, p1) \<Rightarrow>
          (case start (now_p D) TimeMeasure_init p1 of
             ((_, timer), p2) \<Rightarrow>
               (case via (recorder_frame (scenario_file M))
                       (lift (test_scenario (scenario_file M) D)) p2 of
                  (Inl e, p3) \<Rightarrow>
                    (if is_exception e
                     then (case analyse_error (tb e) True p3 of
                             (Inl e', p4) \<Rightarrow>
                               (case stop (now_p D) timer p4 of
                                  (_, p5) \<Rightarrow> (Inl e', close D p5))
                           | (Inr error_data, p4) \<Rightarrow>
                               (case elapsed_seconds (now_p D) timer p4 of
                                  ((secs, timer'), p5) \<Rightarrow>
                                    (case stop (now_p D) timer' p5 of
                                       (_, p6) \<Rightarrow>
                                         (Inr ([PInt 0, PStr (browser driver), PFloat secs,
                                                PStr (exc_type e)] @ error_data),
                                          close D p6))))
                     else (case stop (now_p D) timer p3 of
                             (_, p4) \<Rightarrow> (Inl e, close D p4)))
                | (Inr _, p3) \<Rightarrow>
                    (case stop (now_p D) timer p3 of
                       ((_, timer'), p4) \<Rightarrow>
                         (case elapsed_seconds (now_p D) timer' (close D p4) of
                            ((secs, _), p5) \<Rightarrow>
                              (Inr [PInt 1, PStr (browser driver), PFloat secs,
                                    PStr [], PStr [], PStr [], PStr [], PStr []],
                               p5))))))"

section \<open>The harness (main.py)\<close>

definition drivers :: "driver_class list" where
  "drivers = map snd AvailableBrowserDrivers"

definition header :: "pyval list" where
  "header = map PStr [''Passed'', ''Browser'', ''Execution time'', ''Error'', ''Filename'',
                      ''Line'', ''Function'', ''Error code'']"

definition log_filename :: "string \<Rightarrow> string" where
  "log_filename date_formated = ''test_history/'' @ ''test_expandable'' @ ''_'' @ date_formated @ ''.csv''"

text \<open>
  \<open>list(executor.map(f, xs))\<close>: every call runs in a worker process of its own, and the
  results are read in the order of \<open>xs\<close>; reading the result of a call that raised
  raises its exception in the harness.
\<close>

fun gather :: "(exn + 'a) list \<Rightarrow> exn + 'a list" where
  "gather [] = Inr []"
| "gather (Inl e # rs) = Inl e"
| "gather (Inr a # rs) = (case gather rs of Inl e \<Rightarrow> Inl e | Inr as \<Rightarrow> Inr (a # as))"

definition fresh :: "'w \<Rightarrow> 'w proc" where
  "fresh w = \<lparr>ext = w, stdout = [], close_calls = 0\<rparr>"

text \<open>
  \<open>worlds j\<close> is the state of the engine that the worker of the \<open>j\<close>-th driver class
  starts in.
\<close>

definition executor_map ::
  "'w webdriver \<Rightarrow> modules \<Rightarrow> (nat \<Rightarrow> 'w) \<Rightarrow> driver_class list \<Rightarrow> exn + pyval list list" where
  "executor_map D M worlds ds =
     gather (map (\<lambda>(j, c). fst (test_expandable D M c (fresh (worlds j)))) (enumerate 0 ds))"

text \<open>The loop \<open>for _ in range(repeat)\<close>; \<open>i\<close> counts the iterations done so far.\<close>

fun main_loop ::
  "'w webdriver \<Rightarrow> modules \<Rightarrow> (nat \<Rightarrow> nat \<Rightarrow> 'w) \<Rightarrow> string \<Rightarrow> nat \<Rightarrow> nat \<Rightarrow> (fs, unit) py" where
  "main_loop D M worlds file i 0 fs = (Inr (), fs)"
| "main_loop D M worlds file i (Suc n) fs =
     (case executor_map D M (worlds i) drivers of
        Inl e \<Rightarrow> (Inl e, fs)
      | Inr res \<Rightarrow>
          (case append_to_csv_file file (map PList res) fs of
             (Inl e, fs') \<Rightarrow> (Inl e, fs')
           | (Inr _, fs') \<Rightarrow> main_loop D M worlds file (Suc i) n fs'))"

text \<open>
  \<open>main(repeat)\<close>; \<open>date_formated\<close> is today's date as \<open>strftime("%d_%m_%Y")\<close> prints it.
\<close>

definition main ::
  "'w webdriver \<Rightarrow> modules \<Rightarrow> (nat \<Rightarrow> nat \<Rightarrow> 'w) \<Rightarrow> string \<Rightarrow> int \<Rightarrow> (fs, unit) py" where
  "main D M worlds date_formated repeat =
     bnd (create_csv_file (log_filename date_formated) header)
       (\<lambda>_. main_loop D M worlds (log_filename date_formated) 0 (nat repeat))"

text \<open>
  Running \<open>main.py\<close> as a program. Its imports come first: they execute the body of
  \<open>usefull/driver.py\<close> and with it the \<open>get_driver\<close> calls of the two parameter lists. Only
  when the imports have gone through does the last line call \<open>main(repeat=1)\<close>. \<open>file\<close>
  is the name under which \<open>test_expandable.py\<close> gets loaded.
\<close>

definition main_py ::
  "'w webdriver \<Rightarrow> (string \<Rightarrow> exn + string list) \<Rightarrow> string \<Rightarrow> (nat \<Rightarrow> nat \<Rightarrow> 'w) \<Rightarrow> string
     \<Rightarrow> (fs, unit) py" where
  "main_py D listdir file worlds date_formated fs =
     (case import_driver_module listdir of
        Inl e \<Rightarrow> (Inl e, fs)
      | Inr dm \<Rightarrow>
          main D \<lparr>chrome_executable_path = chrome_executable_path dm,
                   gecko_executable_path = gecko_executable_path dm,
                   scenario_file = file\<rparr> worlds date_formated 1 fs)"

section \<open>Successive runs and test doubles\<close>

text \<open>
  Several runs of the harness on the same day, one after the other, each with its own
  repeat count and engine states; a run that raised does not stop the later ones.
\<close>

fun runs ::
  "'w webdriver \<Rightarrow> modules \<Rightarrow> string \<Rightarrow> (int \<times> (nat \<Rightarrow> nat \<Rightarrow> 'w)) list \<Rightarrow> fs \<Rightarrow> fs" where
  "runs D M date_formated [] fs = fs"
| "runs D M date_formated ((repeat, worlds) # rest) fs =
     runs D M date_formated rest (snd (main D M worlds date_formated repeat fs))"

text \<open>The record the worker of iteration \<open>i\<close> and driver class number \<open>j\<close> returns.\<close>

definition record_of ::
  "'w webdriver \<Rightarrow> modules \<Rightarrow> (nat \<Rightarrow> nat \<Rightarrow> 'w) \<Rightarrow> nat \<Rightarrow> nat \<Rightarrow> pyval list" where
  "record_of D M worlds i j =
     (case fst (test_expandable D M (drivers ! j) (fresh (worlds i j))) of
        Inl e \<Rightarrow> [] | Inr r \<Rightarrow> r)"

text \<open>
  A test double of the engine. Its state is the number of \<open>is_displayed\<close> calls made so
  far and the time; an element is displayed during the first \<open>v\<close> of those calls; only
  \<open>sleep\<close> lets time pass. With \<open>v = 3\<close> the scenario goes through; with \<open>v = 0\<close> the
  banner is not displayed and the first assertion on it fails.
\<close>

definition stub :: "nat \<Rightarrow> (nat \<times> rat) webdriver" where
  "stub v =
     \<lparr>wd_Chrome = (\<lambda>_ _. ret ()),
      wd_Firefox = (\<lambda>_ _. ret ()),
      wd_implicitly_wait = (\<lambda>_. ret ()),
      wd_set_window_size = (\<lambda>_ _. ret ()),
      wd_get = (\<lambda>_. ret ()),
      wd_until = (\<lambda>_ _ c _. ret (case c of presence_of_element_located \<Rightarrow> WebElement 1
                                   | frame_to_be_available_and_switch_to_it \<Rightarrow> PyTrue)),
      wd_parent_frame = ret (),
      wd_default_content = ret (),
      wd_is_displayed = (\<lambda>_ (k, t). (Inr (k < v), (Suc k, t))),
      wd_click = (\<lambda>_. ret ()),
      wd_execute_script = (\<lambda>_ _. ret ()),
      wd_close = (\<lambda>w. w),
      wd_sleep = (\<lambda>d (k, t). (Inr (), (k, t + d))),
      wd_now = (\<lambda>(k, t). (t, (k, t)))\<rparr>"

text \<open>A double whose Chrome session cannot be started.\<close>

definition no_chrome :: "(nat \<times> rat) webdriver" where
  "no_chrome = (stub 3)\<lparr>wd_Chrome := (\<lambda>_ _. raise (py_exc ''WebDriverException''))\<rparr>"

text \<open>
  A double in which a signal interrupts the sleep of the scenario after half a second:
  \<open>time.sleep\<close> raises \<open>KeyboardInterrupt\<close>.
\<close>

definition interrupted :: "(nat \<times> rat) webdriver" where
  "interrupted =
     (stub 3)\<lparr>wd_sleep := (\<lambda>d (k, t). (Inl (py_base_exc ''KeyboardInterrupt''), (k, t + 1 / 2)))\<rparr>"

definition paths :: modules where
  "paths = \<lparr>chrome_executable_path = ''drivers/chrome/chromedriver'',
            gecko_executable_path = ''drivers/gecko/geckodriver'',
            scenario_file = ''/srv/automation-test/test_expandable.py''\<rparr>"

text \<open>Every worker starts with no \<open>is_displayed\<close> call made, at time 100.\<close>

definition still :: "nat \<Rightarrow> nat \<Rightarrow> nat \<times> rat" where
  "still i j = (0, 100)"

text \<open>Drivers directories that exist and are empty.\<close>

definition no_binaries :: "string \<Rightarrow> exn + string list" where
  "no_binaries d = Inr []"

text \<open>A file system in which only the directory of the logs exists.\<close>

definition fs0 :: fs where
  "fs0 = (\<lambda>p. if p = ''test_history'' then Some Dir else None)"

section \<open>Facts about one execution\<close>

lemma lift_close_calls: "lift m p = (r, p') \<Longrightarrow> close_calls p' = close_calls p"
  by (auto simp: lift_def split: prod.splits)

lemma now_p_close_calls: "now_p D p = (t, p') \<Longrightarrow> close_calls p' = close_calls p"
  by (auto simp: now_p_def split: prod.splits)

lemma elapsed_seconds_close_calls:
  "elapsed_seconds (now_p D) tm p = (r, p') \<Longrightarrow> close_calls p' = close_calls p"
  by (auto simp: elapsed_seconds_def split: if_splits prod.splits dest: now_p_close_calls)

lemma start_close_calls: "start (now_p D) tm p = (r, p') \<Longrightarrow> close_calls p' = close_calls p"
  by (auto simp: start_def split: prod.splits dest: now_p_close_calls)

lemma stop_close_calls: "stop (now_p D) tm p = (r, p') \<Longrightarrow> close_calls p' = close_calls p"
  by (auto simp: stop_def Let_def split: prod.splits dest!: now_p_close_calls elapsed_seconds_close_calls)

lemma print_close_calls: "close_calls (print m p) = close_calls p"
  by (simp add: print_def)

lemma close_close_calls: "close_calls (close D p) = Suc (close_calls p)"
  by (simp add: close_def)

lemma analyse_error_close_calls:
  "analyse_error frames out p = (r, p') \<Longrightarrow> close_calls p' = close_calls p"
  by (auto simp: analyse_error_def Let_def print_close_calls split: if_splits)

lemma via_close_calls:
  "via f (lift m) p = (r, p') \<Longrightarrow> close_calls p' = close_calls p"
  by (auto simp: via_def split: prod.splits sum.splits dest: lift_close_calls)

lemma ChromeDriver_init_close_calls:
  "ChromeDriver_init D ep h iw ua opts p = (r, p') \<Longrightarrow> close_calls p' = close_calls p"
  by (auto simp: ChromeDriver_init_def Chrome_set_headless_def bnd_def ret_def print_close_calls
      split: option.splits prod.splits sum.splits if_splits dest!: lift_close_calls)

lemma FirefoxDriver_init_close_calls:
  "FirefoxDriver_init D ep h iw ua opts p = (r, p') \<Longrightarrow> close_calls p' = close_calls p"
  by (auto simp: FirefoxDriver_init_def Firefox_set_headless_def bnd_def ret_def print_close_calls
      split: option.splits prod.splits sum.splits if_splits dest!: lift_close_calls)

lemma instantiate_close_calls:
  "instantiate D M c ua p = (r, p') \<Longrightarrow> close_calls p' = close_calls p"
  by (auto simp: instantiate_def split: driver_class.splits
      dest: ChromeDriver_init_close_calls FirefoxDriver_init_close_calls)

lemma via_lift_Inr:
  "m (ext p) = (Inr a, w) \<Longrightarrow> via f (lift m) p = (Inr a, p\<lparr>ext := w\<rparr>)"
  by (simp add: via_def lift_def)

lemma via_lift_Inl:
  "m (ext p) = (Inl e, w) \<Longrightarrow> via f (lift m) p = (Inl (e\<lparr>tb := f # tb e\<rparr>), p\<lparr>ext := w\<rparr>)"
  by (simp add: via_def lift_def)

lemma test_expandable_ok:
  assumes "instantiate D M c (Some (AvailableUserAgents ! 0)) p = (Inr driver, p1)"
    and "start (now_p D) TimeMeasure_init p1 = ((t0, timer), p2)"
    and "test_scenario (scenario_file M) D (ext p2) = (Inr u, w3)"
  shows "test_expandable D M c p =
           (case stop (now_p D) timer (p2\<lparr>ext := w3\<rparr>) of
              ((x, timer'), p4) \<Rightarrow>
                (case elapsed_seconds (now_p D) timer' (close D p4) of
                   ((secs, y), p5) \<Rightarrow>
                     (Inr [PInt 1, PStr (browser driver), PFloat secs,
                           PStr [], PStr [], PStr [], PStr [], PStr []], p5)))"
  using assms by (simp add: test_expandable_def via_lift_Inr)

lemma test_expandable_raised:
  assumes "instantiate D M c (Some (AvailableUserAgents ! 0)) p = (Inr driver, p1)"
    and "start (now_p D) TimeMeasure_init p1 = ((t0, timer), p2)"
    and "test_scenario (scenario_file M) D (ext p2) = (Inl e, w3)"
    and "is_exception e"
  shows "test_expandable D M c p =
           (case elapsed_seconds (now_p D) timer
                   (print (Test_failed_at (last (recorder_frame (scenario_file M) # tb e))) (p2\<lparr>ext := w3\<rparr>)) of
              ((secs, timer'), p5) \<Rightarrow>
                (case stop (now_p D) timer' p5 of
                   (x, p6) \<Rightarrow>
                     (Inr [PInt 0, PStr (browser driver), PFloat secs, PStr (exc_type e),
                           PStr (filename (last (recorder_frame (scenario_file M) # tb e))),
                           PInt (line (last (recorder_frame (scenario_file M) # tb e))),
                           PStr (func (last (recorder_frame (scenario_file M) # tb e))),
                           line_code_val (line_code (last (recorder_frame (scenario_file M) # tb e)))],
                      close D p6)))"
  using assms by (simp add: test_expandable_def via_lift_Inl analyse_error_def Let_def)

lemma test_expandable_passes_on:
  assumes "instantiate D M c (Some (AvailableUserAgents ! 0)) p = (Inr driver, p1)"
    and "start (now_p D) TimeMeasure_init p1 = ((t0, timer), p2)"
    and "test_scenario (scenario_file M) D (ext p2) = (Inl e, w3)"
    and "\<not> is_exception e"
  shows "test_expandable D M c p =
           (case stop (now_p D) timer (p2\<lparr>ext := w3\<rparr>) of
              (x, p4) \<Rightarrow>
                (Inl (e\<lparr>tb := recorder_frame (scenario_file M) # tb e\<rparr>), close D p4))"
  using assms by (simp add: test_expandable_def via_lift_Inl)

lemma test_expandable_shape:
  assumes "test_expandable D M c p = (Inr r, p')"
  shows "\<exists>driver p1 b rest.
           instantiate D M c (Some (AvailableUserAgents ! 0)) p = (Inr driver, p1)
           \<and> r = PInt b # PStr (browser driver) # rest"
  using assms
  by (auto simp: test_expandable_def Let_def split: prod.splits sum.splits if_splits)

lemma ChromeDriver_init_browser:
  "ChromeDriver_init D ep h iw ua opts p = (Inr d, p') \<Longrightarrow> browser d = ''chrome''"
  by (auto simp: ChromeDriver_init_def Chrome_set_headless_def Chrome_set_user_agent_def
      bnd_def ret_def split: option.splits prod.splits sum.splits if_splits)

lemma FirefoxDriver_init_browser:
  "FirefoxDriver_init D ep h iw ua opts p = (Inr d, p') \<Longrightarrow> browser d = ''firefox''"
  by (auto simp: FirefoxDriver_init_def Firefox_set_headless_def Firefox_set_user_agent_def
      bnd_def ret_def split: option.splits prod.splits sum.splits if_splits)

lemma instantiate_browser:
  "instantiate D M c ua p = (Inr d, p') \<Longrightarrow>
     browser d = (case c of ChromeDriver \<Rightarrow> ''chrome'' | FirefoxDriver \<Rightarrow> ''firefox'')"
  by (auto simp: instantiate_def split: driver_class.splits
      dest: ChromeDriver_init_browser FirefoxDriver_init_browser)

section \<open>Facts about the harness\<close>

lemma gather_Inr: "gather rs = Inr as \<Longrightarrow> rs = map Inr as"
proof (induction rs arbitrary: as)
  case Nil
  then show ?case by simp
next
  case (Cons r rs)
  then show ?case by (cases r) (auto split: sum.splits)
qed

lemma drivers_eq: "drivers = [ChromeDriver, FirefoxDriver]"
  by (simp add: drivers_def AvailableBrowserDrivers_def)

lemma executor_map_records:
  assumes "executor_map D M (worlds i) drivers = Inr res"
  shows "res = map (record_of D M worlds i) [0..<length drivers]"
    and "\<forall>j<length drivers.
           fst (test_expandable D M (drivers ! j) (fresh (worlds i j))) = Inr (record_of D M worlds i j)"
proof -
  from assms have
    "[fst (test_expandable D M ChromeDriver (fresh (worlds i 0))),
      fst (test_expandable D M FirefoxDriver (fresh (worlds i 1)))] = map Inr res"
    by (auto simp: executor_map_def drivers_eq dest: gather_Inr)
  then obtain r0 r1 where res: "res = [r0, r1]"
    and r0: "fst (test_expandable D M ChromeDriver (fresh (worlds i 0))) = Inr r0"
    and r1: "fst (test_expandable D M FirefoxDriver (fresh (worlds i 1))) = Inr r1"
    by (cases res; cases "tl res") auto
  have upt2: "[0..<2] = [0, Suc 0]" by (simp add: upt_rec)
  show "res = map (record_of D M worlds i) [0..<length drivers]"
    using res r0 r1 by (simp add: drivers_eq record_of_def upt2)
  show "\<forall>j<length drivers.
           fst (test_expandable D M (drivers ! j) (fresh (worlds i j))) = Inr (record_of D M worlds i j)"
    using r0 r1 by (auto simp: drivers_eq record_of_def less_Suc_eq)
qed

lemma rows_of_upd: "rows_of (fs(p \<mapsto> File rs)) p = rs"
  by (simp add: rows_of_def)

lemma isfile_upd: "isfile (fs(p \<mapsto> File rs)) p"
  by (simp add: isfile_def)

lemma writerows_lists:
  "writerows p (map PList rs) fs =
     (Inr (), if rs = [] then fs else fs(p \<mapsto> File (rows_of fs p @ rs)))"
  by (induction rs arbitrary: fs) (auto simp: writerow_def rows_of_upd)

lemma append_lists:
  assumes "append_to_csv_file p (map PList res) fs = (Inr u, fs')" and "res \<noteq> []"
  shows "fs' = fs(p \<mapsto> File (rows_of fs p @ res))"
  using assms
  by (cases res)
     (auto simp: append_to_csv_file_def bnd_def open_a_def is_list_def writerows_lists
        writerow_def rows_of_upd
        split: option.splits prod.splits sum.splits if_splits)

lemma main_loop_rows:
  assumes "main_loop D M worlds file i n fs = (Inr u, fs')"
  shows "rows_of fs' file =
           rows_of fs file
           @ concat (map (\<lambda>k. map (record_of D M worlds k) [0..<length drivers]) [i..<i + n])
         \<and> (\<forall>k. i \<le> k \<and> k < i + n \<longrightarrow> (\<forall>j<length drivers.
               fst (test_expandable D M (drivers ! j) (fresh (worlds k j)))
                 = Inr (record_of D M worlds k j)))"
  using assms
proof (induction n arbitrary: i fs)
  case 0
  then show ?case by auto
next
  case (Suc n)
  from Suc.prems obtain res where em: "executor_map D M (worlds i) drivers = Inr res"
    by (auto split: sum.splits)
  note recs = executor_map_records[of D M worlds i res, OF em]
  from Suc.prems em obtain fs1 where
    ap: "append_to_csv_file file (map PList res) fs = (Inr (), fs1)"
    and rest: "main_loop D M worlds file (Suc i) n fs1 = (Inr u, fs')"
    by (auto split: sum.splits prod.splits)
  have "res \<noteq> []" using recs(1) by (simp add: drivers_eq)
  from append_lists[OF ap this] have fs1: "rows_of fs1 file = rows_of fs file @ res"
    by (simp add: rows_of_upd)
  let ?F = "\<lambda>k. map (record_of D M worlds k) [0..<length drivers]"
  have upt: "[i..<i + Suc n] = i # [Suc i..<Suc i + n]"
    by (simp add: upt_conv_Cons)
  have "concat (map ?F [i..<i + Suc n]) = res @ concat (map ?F [Suc i..<Suc i + n])"
    unfolding upt using recs(1) by simp
  moreover from Suc.IH[OF rest]
  have "rows_of fs' file = rows_of fs1 file @ concat (map ?F [Suc i..<Suc i + n])"
    by blast
  ultimately have rows: "rows_of fs' file = rows_of fs file @ concat (map ?F [i..<i + Suc n])"
    using fs1 by simp
  have "fst (test_expandable D M (drivers ! j) (fresh (worlds k j)))
          = Inr (record_of D M worlds k j)"
    if "i \<le> k" "k < i + Suc n" "j < length drivers" for k j
  proof (cases "k = i")
    case True
    with recs(2) that(3) show ?thesis by simp
  next
    case False
    with that have "Suc i \<le> k \<and> k < Suc i + n" by simp
    with Suc.IH[OF rest] that(3) show ?thesis by blast
  qed
  with rows show ?case by blast
qed

section \<open>The test doubles at work\<close>

lemma stub_scenario_ok: "test_scenario file (stub 3) (0, t) = (Inr (), (5, t + 3 / 2))"
  by (simp add: test_scenario_def stub_def bnd_def via_def ret_def raise_def py_assert_def
      switch_to_iframe_by_css_selector_def get_element_by_css_selector_def wait_executor_def
      switch_back_to_parent_frame_def sleep_def is_displayed_def click_def truthy_def)

lemma stub_scenario_fails:
  "test_scenario file (stub 0) (0, t) =
     (Inl \<lparr>exc_type = ''AssertionError'', is_exception = True,
           tb = [sf file 31 ''assert banner_element.is_displayed()  # Check if displayed'']\<rparr>, (1, t))"
  by (simp add: test_scenario_def stub_def bnd_def via_def ret_def raise_def py_assert_def py_exc_def
      switch_to_iframe_by_css_selector_def get_element_by_css_selector_def wait_executor_def
      switch_back_to_parent_frame_def sleep_def is_displayed_def click_def truthy_def)

lemma stub_instantiate_chrome:
  "instantiate (stub v) paths ChromeDriver (Some (AvailableUserAgents ! 0)) (fresh (0, t)) =
     (Inr \<lparr>browser = ''chrome'',
           options = add_argument (''--user-agent='' @ AvailableUserAgents ! 0) Options,
           window_size = None\<rparr>,
      \<lparr>ext = (0, t), stdout = [Mode_normal ''WebDriver: Mode = Normal.''], close_calls = 0\<rparr>)"
  by (simp add: instantiate_def ChromeDriver_init_def Chrome_set_headless_def
      Chrome_set_user_agent_def truthy_str_def AvailableUserAgents_def bnd_def ret_def lift_def
      stub_def fresh_def print_def)

lemma stub_start:
  "start (now_p (stub v)) TimeMeasure_init
     \<lparr>ext = (0, t), stdout = out, close_calls = 0\<rparr> =
   ((t, \<lparr>start_time = t, end_time = 0, elapsed = 0\<rparr>),
    \<lparr>ext = (0, t), stdout = out, close_calls = 0\<rparr>)"
  by (simp add: start_def now_p_def stub_def TimeMeasure_init_def)

lemma log_is_not_dir: "log_filename d \<noteq> ''test_history''" "''test_history'' \<noteq> log_filename d"
  by (simp_all add: log_filename_def)

lemma log_dirname: "dirname (log_filename ''03_11_2026'') = ''test_history''"
  by (simp add: dirname_def log_filename_def)

lemma log_is_file_path: "log_filename d \<noteq> []" "last (log_filename d) \<noteq> CHR ''/''"
  by (simp_all add: log_filename_def)

lemma open_check_log:
  "open_check fs (log_filename d) =
     (case fs (log_filename d) of
        Some Dir \<Rightarrow> Some (py_exc ''IsADirectoryError'')
      | _ \<Rightarrow> parent_check fs (log_filename d))"
  by (simp add: open_check_def log_is_file_path)

lemma fs0_absent: "\<not> isfile fs0 (log_filename d)"
  by (simp add: isfile_def fs0_def log_is_not_dir)

lemma fs0_open_check: "open_check fs0 (log_filename ''03_11_2026'') = None"
  by (simp add: open_check_log parent_check_def fs0_def log_is_not_dir log_dirname)

lemma fs0_open_check': "open_check (fs0(log_filename ''03_11_2026'' \<mapsto> File rs)) (log_filename ''03_11_2026'') = None"
  by (simp add: open_check_log parent_check_def fs0_def log_is_not_dir log_dirname)

section \<open>Properties of the recorder\<close>

text \<open>
  Claim C2. When the driver has been built and the scenario call returns without raising,
  \<open>test_expandable\<close> returns a record: first field \<open>1\<close>, second field the browser tag of
  the driver, third field the elapsed seconds, and the empty string in the type-of-error
  field and in the four site fields.
\<close>

theorem test_expandable_passed:
  assumes "instantiate D M c (Some (AvailableUserAgents ! 0)) p = (Inr driver, p1)"
    and "start (now_p D) TimeMeasure_init p1 = ((t0, timer), p2)"
    and "test_scenario (scenario_file M) D (ext p2) = (Inr (), w3)"
  shows "\<exists>secs. fst (test_expandable D M c p) =
           Inr [PInt 1, PStr (browser driver), PFloat secs,
                PStr [], PStr [], PStr [], PStr [], PStr []]"
  unfolding test_expandable_ok[OF assms]
  by (auto split: prod.splits)

text \<open>The double \<open>stub 3\<close> on Chrome satisfies the hypotheses of the theorem above.\<close>

theorem test_expandable_passed_witness:
  "instantiate (stub 3) paths ChromeDriver (Some (AvailableUserAgents ! 0)) (fresh (0, 100)) =
     (Inr \<lparr>browser = ''chrome'',
           options = add_argument (''--user-agent='' @ AvailableUserAgents ! 0) Options,
           window_size = None\<rparr>,
      \<lparr>ext = (0, 100), stdout = [Mode_normal ''WebDriver: Mode = Normal.''], close_calls = 0\<rparr>)
   \<and> start (now_p (stub 3)) TimeMeasure_init
        \<lparr>ext = (0, 100), stdout = [Mode_normal ''WebDriver: Mode = Normal.''], close_calls = 0\<rparr> =
       ((100, \<lparr>start_time = 100, end_time = 0, elapsed = 0\<rparr>),
        \<lparr>ext = (0, 100), stdout = [Mode_normal ''WebDriver: Mode = Normal.''], close_calls = 0\<rparr>)
   \<and> test_scenario (scenario_file paths) (stub 3) (0, 100) = (Inr (), (5, 100 + 3 / 2))
   \<and> (\<exists>secs. fst (test_expandable (stub 3) paths ChromeDriver (fresh (0, 100))) =
         Inr [PInt 1, PStr ''chrome'', PFloat secs, PStr [], PStr [], PStr [], PStr [], PStr []])"
proof -
  note h1 = stub_instantiate_chrome[of 3 100]
  note h2 = stub_start[of 3 100 "[Mode_normal ''WebDriver: Mode = Normal.'']"]
  note h3 = stub_scenario_ok[of "scenario_file paths" 100]
  have h3': "test_scenario (scenario_file paths) (stub 3)
               (ext \<lparr>ext = (0, 100), stdout = [Mode_normal ''WebDriver: Mode = Normal.''],
                     close_calls = 0\<rparr>) = (Inr (), (5, 100 + 3 / 2))"
    using h3 by simp
  from test_expandable_passed[OF h1 h2 h3'] h1 h2 h3 show ?thesis by simp
qed

lemma interrupted_instantiate:
  "instantiate interrupted paths ChromeDriver (Some (AvailableUserAgents ! 0)) (fresh (0, t)) =
     (Inr \<lparr>browser = ''chrome'',
           options = add_argument (''--user-agent='' @ AvailableUserAgents ! 0) Options,
           window_size = None\<rparr>,
      \<lparr>ext = (0, t), stdout = [Mode_normal ''WebDriver: Mode = Normal.''], close_calls = 0\<rparr>)"
  by (simp add: instantiate_def ChromeDriver_init_def Chrome_set_headless_def
      Chrome_set_user_agent_def truthy_str_def AvailableUserAgents_def bnd_def ret_def lift_def
      interrupted_def stub_def fresh_def print_def)

lemma interrupted_start:
  "start (now_p interrupted) TimeMeasure_init
     \<lparr>ext = (0, t), stdout = out, close_calls = 0\<rparr> =
   ((t, \<lparr>start_time = t, end_time = 0, elapsed = 0\<rparr>),
    \<lparr>ext = (0, t), stdout = out, close_calls = 0\<rparr>)"
  by (simp add: start_def now_p_def interrupted_def stub_def TimeMeasure_init_def)

lemma interrupted_scenario:
  "test_scenario file interrupted (0, t) =
     (Inl \<lparr>exc_type = ''KeyboardInterrupt'', is_exception = False,
           tb = [sf file 36 ''time.sleep(1.5)  # Modal opening animation takes about 1.5s  (Should not take more)'']\<rparr>,
      (1, t + 1 / 2))"
  by (simp add: test_scenario_def interrupted_def stub_def bnd_def via_def ret_def raise_def
      py_assert_def py_base_exc_def switch_to_iframe_by_css_selector_def
      get_element_by_css_selector_def wait_executor_def switch_back_to_parent_frame_def
      sleep_def is_displayed_def click_def truthy_def)

text \<open>
  Claim C3, as amended. When the scenario call raises an exception \<open>e\<close> that is an instance
  of \<open>Exception\<close>, \<open>test_expandable\<close> does not raise: it returns a record with first field
  \<open>0\<close>, the browser tag, the elapsed seconds, the class name of \<open>e\<close>, and file name, line,
  function name and statement text of the last (deepest) entry of the traceback seen by
  the handler, which is the frame of \<open>test_expandable\<close> followed by the frames of \<open>e\<close>.
  When \<open>e\<close> is not an instance of \<open>Exception\<close>, the handler does not take it: \<open>e\<close> leaves
  \<open>test_expandable\<close> and no record is returned.
\<close>

theorem test_expandable_failed:
  assumes "instantiate D M c (Some (AvailableUserAgents ! 0)) p = (Inr driver, p1)"
    and "start (now_p D) TimeMeasure_init p1 = ((t0, timer), p2)"
    and "test_scenario (scenario_file M) D (ext p2) = (Inl e, w3)"
  shows "(is_exception e \<longrightarrow>
            (\<exists>secs. fst (test_expandable D M c p) =
               Inr [PInt 0, PStr (browser driver), PFloat secs, PStr (exc_type e),
                    PStr (filename (last (recorder_frame (scenario_file M) # tb e))),
                    PInt (line (last (recorder_frame (scenario_file M) # tb e))),
                    PStr (func (last (recorder_frame (scenario_file M) # tb e))),
                    line_code_val (line_code (last (recorder_frame (scenario_file M) # tb e)))]))
         \<and> (\<not> is_exception e \<longrightarrow>
              fst (test_expandable D M c p) =
                Inl (e\<lparr>tb := recorder_frame (scenario_file M) # tb e\<rparr>))"
proof (cases "is_exception e")
  case True
  show ?thesis
    unfolding test_expandable_raised[OF assms True]
    using True by (auto split: prod.splits)
next
  case False
  show ?thesis
    unfolding test_expandable_passes_on[OF assms False]
    using False by (auto split: prod.splits)
qed

text \<open>
  For every exception, as the claim was stated, this fails. In the run below a signal
  interrupts \<open>time.sleep\<close> in line 36 of the scenario: the \<open>KeyboardInterrupt\<close> raised inside
  the scenario call leaves \<open>test_expandable\<close>, which returns no record.
\<close>

theorem keyboard_interrupt_counterexample:
  "test_scenario (scenario_file paths) interrupted (0, 100) =
     (Inl \<lparr>exc_type = ''KeyboardInterrupt'', is_exception = False,
           tb = [sf (scenario_file paths) 36 ''time.sleep(1.5)  # Modal opening animation takes about 1.5s  (Should not take more)'']\<rparr>,
      (1, 201 / 2))
   \<and> fst (test_expandable interrupted paths ChromeDriver (fresh (0, 100))) =
       Inl \<lparr>exc_type = ''KeyboardInterrupt'', is_exception = False,
            tb = [recorder_frame (scenario_file paths),
                  sf (scenario_file paths) 36 ''time.sleep(1.5)  # Modal opening animation takes about 1.5s  (Should not take more)'']\<rparr>"
proof -
  note h1 = interrupted_instantiate[of 100]
  note h2 = interrupted_start[of 100 "[Mode_normal ''WebDriver: Mode = Normal.'']"]
  have h3: "test_scenario (scenario_file paths) interrupted
               (ext \<lparr>ext = (0, 100), stdout = [Mode_normal ''WebDriver: Mode = Normal.''],
                     close_calls = 0\<rparr>) =
             (Inl \<lparr>exc_type = ''KeyboardInterrupt'', is_exception = False,
                   tb = [sf (scenario_file paths) 36 ''time.sleep(1.5)  # Modal opening animation takes about 1.5s  (Should not take more)'']\<rparr>,
              (1, 201 / 2))"
    using interrupted_scenario[of "scenario_file paths" 100] by simp
  have h4: "\<not> is_exception \<lparr>exc_type = ''KeyboardInterrupt'', is_exception = False,
                   tb = [sf (scenario_file paths) 36 ''time.sleep(1.5)  # Modal opening animation takes about 1.5s  (Should not take more)'']\<rparr>"
    by simp
  show ?thesis
    unfolding test_expandable_passes_on[OF h1 h2 h3 h4]
    using h3 by (simp split: prod.splits)
qed

text \<open>
  The double \<open>stub 0\<close> on Chrome satisfies the hypotheses of the theorem above with an
  instance of \<open>Exception\<close>: the banner is not displayed, the assertion of line 31 fails,
  and that line is the site recorded. The double \<open>interrupted\<close> satisfies them with an
  exception that is not one.
\<close>

theorem test_expandable_failed_witness:
  "instantiate (stub 0) paths ChromeDriver (Some (AvailableUserAgents ! 0)) (fresh (0, 100)) =
     (Inr \<lparr>browser = ''chrome'',
           options = add_argument (''--user-agent='' @ AvailableUserAgents ! 0) Options,
           window_size = None\<rparr>,
      \<lparr>ext = (0, 100), stdout = [Mode_normal ''WebDriver: Mode = Normal.''], close_calls = 0\<rparr>)
   \<and> start (now_p (stub 0)) TimeMeasure_init
        \<lparr>ext = (0, 100), stdout = [Mode_normal ''WebDriver: Mode = Normal.''], close_calls = 0\<rparr> =
       ((100, \<lparr>start_time = 100, end_time = 0, elapsed = 0\<rparr>),
        \<lparr>ext = (0, 100), stdout = [Mode_normal ''WebDriver: Mode = Normal.''], close_calls = 0\<rparr>)
   \<and> test_scenario (scenario_file paths) (stub 0) (0, 100) =
       (Inl \<lparr>exc_type = ''AssertionError'', is_exception = True,
             tb = [sf (scenario_file paths) 31 ''assert banner_element.is_displayed()  # Check if displayed'']\<rparr>, (1, 100))
   \<and> (\<exists>secs. fst (test_expandable (stub 0) paths ChromeDriver (fresh (0, 100))) =
         Inr [PInt 0, PStr ''chrome'', PFloat secs, PStr ''AssertionError'',
              PStr ''/srv/automation-test/test_expandable.py'', PInt 31, PStr ''test_scenario'',
              PStr ''assert banner_element.is_displayed()  # Check if displayed''])
   \<and> test_scenario (scenario_file paths) interrupted (0, 100) =
       (Inl \<lparr>exc_type = ''KeyboardInterrupt'', is_exception = False,
             tb = [sf (scenario_file paths) 36 ''time.sleep(1.5)  # Modal opening animation takes about 1.5s  (Should not take more)'']\<rparr>,
        (1, 201 / 2))
   \<and> isl (fst (test_expandable interrupted paths ChromeDriver (fresh (0, 100))))"
proof -
  note h1 = stub_instantiate_chrome[of 0 100]
  note h2 = stub_start[of 0 100 "[Mode_normal ''WebDriver: Mode = Normal.'']"]
  note h3 = stub_scenario_fails[of "scenario_file paths" 100]
  have h3': "test_scenario (scenario_file paths) (stub 0)
               (ext \<lparr>ext = (0, 100), stdout = [Mode_normal ''WebDriver: Mode = Normal.''],
                     close_calls = 0\<rparr>) =
             (Inl \<lparr>exc_type = ''AssertionError'', is_exception = True,
                   tb = [sf (scenario_file paths) 31 ''assert banner_element.is_displayed()  # Check if displayed'']\<rparr>,
              (1, 100))"
    using h3 by simp
  note i1 = interrupted_instantiate[of 100]
  note i2 = interrupted_start[of 100 "[Mode_normal ''WebDriver: Mode = Normal.'']"]
  have i3: "test_scenario (scenario_file paths) interrupted (0, 100) =
             (Inl \<lparr>exc_type = ''KeyboardInterrupt'', is_exception = False,
                   tb = [sf (scenario_file paths) 36 ''time.sleep(1.5)  # Modal opening animation takes about 1.5s  (Should not take more)'']\<rparr>,
              (1, 201 / 2))"
    using interrupted_scenario[of "scenario_file paths" 100] by simp
  have i3': "test_scenario (scenario_file paths) interrupted
               (ext \<lparr>ext = (0, 100), stdout = [Mode_normal ''WebDriver: Mode = Normal.''],
                     close_calls = 0\<rparr>) =
             (Inl \<lparr>exc_type = ''KeyboardInterrupt'', is_exception = False,
                   tb = [sf (scenario_file paths) 36 ''time.sleep(1.5)  # Modal opening animation takes about 1.5s  (Should not take more)'']\<rparr>,
              (1, 201 / 2))"
    using i3 by simp
  have a: "\<exists>secs. fst (test_expandable (stub 0) paths ChromeDriver (fresh (0, 100))) =
         Inr [PInt 0, PStr ''chrome'', PFloat secs, PStr ''AssertionError'',
              PStr ''/srv/automation-test/test_expandable.py'', PInt 31, PStr ''test_scenario'',
              PStr ''assert banner_element.is_displayed()  # Check if displayed'']"
    using test_expandable_failed[OF h1 h2 h3']
    by (simp add: sf_def paths_def line_code_val_def)
  have b: "isl (fst (test_expandable interrupted paths ChromeDriver (fresh (0, 100))))"
    using test_expandable_failed[OF i1 i2 i3'] by simp
  from a b h1 h2 h3 i3 show ?thesis by simp
qed

text \<open>
  Claim C4. In every invocation of \<open>test_expandable\<close> that has a driver handle, whether the
  scenario call returns or raises, and whether the handler takes the exception or not,
  \<open>close\<close> is called on the driver exactly once: the count of \<open>close\<close> calls of the
  worker goes up by one.
\<close>

theorem close_called_once:
  assumes "instantiate D M c (Some (AvailableUserAgents ! 0)) p = (Inr driver, p1)"
  shows "close_calls (snd (test_expandable D M c p)) = Suc (close_calls p)"
proof -
  obtain t0 timer p2 where st: "start (now_p D) TimeMeasure_init p1 = ((t0, timer), p2)"
    by (metis prod.exhaust)
  obtain r w3 where sc: "test_scenario (scenario_file M) D (ext p2) = (r, w3)"
    by (metis prod.exhaust)
  have c2: "close_calls p2 = close_calls p"
    using instantiate_close_calls[OF assms] start_close_calls[OF st] by simp
  show ?thesis
  proof (cases r)
    case (Inl e)
    with sc have sc': "test_scenario (scenario_file M) D (ext p2) = (Inl e, w3)" by simp
    show ?thesis
    proof (cases "is_exception e")
      case True
      show ?thesis
        unfolding test_expandable_raised[OF assms st sc' True]
        using c2
        by (auto simp: close_close_calls print_close_calls split: prod.splits
            dest!: elapsed_seconds_close_calls stop_close_calls)
    next
      case False
      show ?thesis
        unfolding test_expandable_passes_on[OF assms st sc' False]
        using c2
        by (auto simp: close_close_calls split: prod.splits dest!: stop_close_calls)
    qed
  next
    case (Inr u)
    with sc have sc': "test_scenario (scenario_file M) D (ext p2) = (Inr u, w3)" by simp
    show ?thesis
      unfolding test_expandable_ok[OF assms st sc']
      using c2
      by (auto simp: close_close_calls split: prod.splits
          dest!: elapsed_seconds_close_calls stop_close_calls)
  qed
qed

text \<open>The double \<open>stub 0\<close>, whose scenario raises, satisfies the hypothesis of the theorem above.\<close>

theorem close_called_once_witness:
  "instantiate (stub 0) paths ChromeDriver (Some (AvailableUserAgents ! 0)) (fresh (0, 100)) =
     (Inr \<lparr>browser = ''chrome'',
           options = add_argument (''--user-agent='' @ AvailableUserAgents ! 0) Options,
           window_size = None\<rparr>,
      \<lparr>ext = (0, 100), stdout = [Mode_normal ''WebDriver: Mode = Normal.''], close_calls = 0\<rparr>)
   \<and> close_calls (snd (test_expandable (stub 0) paths ChromeDriver (fresh (0, 100)))) = 1"
proof -
  note h1 = stub_instantiate_chrome[of 0 100]
  from close_called_once[OF h1] h1 show ?thesis by (simp add: fresh_def)
qed

section \<open>Properties of the helpers and the constructors\<close>

text \<open>
  Claim C10. \<open>append_to_csv_file\<close> called with an empty list always raises: the error of
  \<open>open\<close> when the file cannot be opened, and otherwise \<open>IndexError\<close> from reading
  \<open>data[0]\<close>. No row is added to the file.
\<close>

theorem append_to_csv_file_empty:
  "fst (append_to_csv_file file_path [] fs) =
     Inl (case open_check fs file_path of Some e \<Rightarrow> e | None \<Rightarrow> py_exc ''IndexError'')
   \<and> rows_of (snd (append_to_csv_file file_path [] fs)) file_path = rows_of fs file_path"
  by (simp add: append_to_csv_file_def bnd_def open_a_def raise_def rows_of_upd split: option.splits)

text \<open>
  Claim C9. When an options object is passed to the constructor of \<open>ChromeDriver\<close> or
  \<open>FirefoxDriver\<close>, the parameters \<open>headless\<close> and \<open>user_agent\<close> play no part: the engine
  gets the options object as it was passed, the driver keeps it unchanged, and nothing
  else depends on the two parameters.
\<close>

theorem options_used_as_is:
  "ChromeDriver_init D executable_path headless implicit_wait user_agent (Some given) p =
     bnd (lift (wd_Chrome D executable_path given))
       (\<lambda>_. bnd (lift (wd_implicitly_wait D implicit_wait))
         (\<lambda>_. ret \<lparr>browser = ''chrome'', options = given, window_size = None\<rparr>)) p
   \<and> FirefoxDriver_init D executable_path headless implicit_wait user_agent (Some given) p =
     bnd (lift (wd_Firefox D executable_path given))
       (\<lambda>_. bnd (lift (wd_implicitly_wait D implicit_wait))
         (\<lambda>_. bnd (lift (wd_set_window_size D 360 640))
           (\<lambda>_. ret \<lparr>browser = ''firefox'', options = given, window_size = None\<rparr>))) p"
  by (simp add: ChromeDriver_init_def FirefoxDriver_init_def)

lemma no_chrome_instantiate:
  "instantiate no_chrome paths ChromeDriver (Some (AvailableUserAgents ! 0)) (fresh (0, t)) =
     (Inl (py_exc ''WebDriverException''),
      \<lparr>ext = (0, t), stdout = [Mode_normal ''WebDriver: Mode = Normal.''], close_calls = 0\<rparr>)"
  by (simp add: instantiate_def ChromeDriver_init_def Chrome_set_headless_def
      Chrome_set_user_agent_def truthy_str_def AvailableUserAgents_def bnd_def ret_def raise_def
      lift_def no_chrome_def stub_def fresh_def print_def)

lemma import_fails:
  assumes "isl (get_driver listdir ''drivers/chrome'') \<or> isl (get_driver listdir ''drivers/gecko'')"
  shows "\<exists>x. import_driver_module listdir = Inl x
           \<and> main_py D listdir file worlds date_formated fs = (Inl x, fs)"
  using assms
  by (auto simp: import_driver_module_def main_py_def split: sum.splits)

text \<open>
  Claim C5, as amended. With an empty drivers directory \<open>get_driver\<close> raises \<open>IndexError\<close>,
  and with a directory that cannot be listed it raises the error of the listing. The
  call is the default value of \<open>executable_path\<close>, evaluated when the module that defines
  the driver classes is imported: when it raises for either directory the import fails
  with that error, and \<open>main.py\<close> stops there, before \<open>main\<close> and \<open>test_expandable\<close> are
  called and without touching the file system. An exception that the constructor call
  inside \<open>test_expandable\<close> raises is not handled there: \<open>test_expandable\<close> raises the same
  exception at once and returns no record.
\<close>

theorem construction_failure:
  "(listdir d = Inr [] \<longrightarrow> get_driver listdir d = Inl (py_exc ''IndexError''))
   \<and> (listdir d = Inl e \<longrightarrow> get_driver listdir d = Inl e)
   \<and> (isl (get_driver listdir ''drivers/chrome'') \<or> isl (get_driver listdir ''drivers/gecko'')
        \<longrightarrow> (\<exists>x. import_driver_module listdir = Inl x
                \<and> main_py D listdir file worlds date_formated fs = (Inl x, fs)))
   \<and> (instantiate Da M c (Some (AvailableUserAgents ! 0)) p = (Inl x, p1)
        \<longrightarrow> test_expandable Da M c p = (Inl x, p1))"
proof -
  have a: "listdir d = Inr [] \<longrightarrow> get_driver listdir d = Inl (py_exc ''IndexError'')"
    by (simp add: get_driver_def)
  have b: "listdir d = Inl e \<longrightarrow> get_driver listdir d = Inl e"
    by (simp add: get_driver_def)
  have c: "instantiate Da M c (Some (AvailableUserAgents ! 0)) p = (Inl x, p1)
             \<longrightarrow> test_expandable Da M c p = (Inl x, p1)"
    by (simp add: test_expandable_def)
  from a b c
    import_fails[of listdir D "file" worlds date_formated fs]
  show ?thesis
    by blast
qed

lemma no_chrome_test_expandable:
  "test_expandable no_chrome paths ChromeDriver (fresh (0, 100)) =
     (Inl (py_exc ''WebDriverException''),
      \<lparr>ext = (0, 100), stdout = [Mode_normal ''WebDriver: Mode = Normal.''], close_calls = 0\<rparr>)"
  by (simp add: test_expandable_def no_chrome_instantiate)

text \<open>
  As the claim was stated, with the failure inside the construction of a driver, it
  fails. With both drivers directories empty, \<open>main.py\<close> ends with \<open>IndexError\<close> (the code
  has no \<open>ConstructionError\<close>) and the file system is as before: \<open>main\<close> has not been
  entered, no driver has been constructed and \<open>test_expandable\<close> has not been invoked. A
  failure inside the construction looks different: with the double \<open>no_chrome\<close>, \<open>main\<close>
  has created the log with its header before the error of the worker ends it.
\<close>

theorem import_time_counterexample:
  "main_py (stub 3) no_binaries (scenario_file paths) still ''03_11_2026'' fs0 =
     (Inl (py_exc ''IndexError''), fs0)
   \<and> fs0 (log_filename ''03_11_2026'') = None
   \<and> exc_type (py_exc ''IndexError'') \<noteq> ''ConstructionError''
   \<and> main no_chrome paths still ''03_11_2026'' 1 fs0 =
       (Inl (py_exc ''WebDriverException''), fs0(log_filename ''03_11_2026'' \<mapsto> File [header]))"
proof -
  have a: "main_py (stub 3) no_binaries (scenario_file paths) still ''03_11_2026'' fs0 =
             (Inl (py_exc ''IndexError''), fs0)"
    by (simp add: main_py_def import_driver_module_def get_driver_def no_binaries_def)
  have b: "fs0 (log_filename ''03_11_2026'') = None"
    by (simp add: fs0_def log_filename_def)
  have c: "exc_type (py_exc ''IndexError'') \<noteq> ''ConstructionError''"
    by (simp add: py_exc_def)
  have cr: "create_csv_file (log_filename ''03_11_2026'') header fs0 =
              (Inr (), fs0(log_filename ''03_11_2026'' \<mapsto> File [header]))"
    using fs0_absent fs0_open_check
    by (simp add: create_csv_file_def bnd_def open_w_def writerow_def rows_of_def)
  have em: "executor_map no_chrome paths (still 0) drivers = Inl (py_exc ''WebDriverException'')"
    by (simp add: executor_map_def drivers_eq still_def no_chrome_test_expandable)
  have d: "main no_chrome paths still ''03_11_2026'' 1 fs0 =
       (Inl (py_exc ''WebDriverException''), fs0(log_filename ''03_11_2026'' \<mapsto> File [header]))"
    by (simp add: main_def bnd_def cr em)
  from a b c d show ?thesis by blast
qed

text \<open>
  An empty directory, a missing directory, and the double \<open>no_chrome\<close>, whose Chrome
  session cannot be started, satisfy the hypotheses of the theorem above.
\<close>

theorem construction_failure_witness:
  "no_binaries ''drivers/chrome'' = Inr []
   \<and> get_driver no_binaries ''drivers/chrome'' = Inl (py_exc ''IndexError'')
   \<and> (\<lambda>_. Inl (py_exc ''FileNotFoundError'')) ''drivers/chrome''
        = (Inl (py_exc ''FileNotFoundError'') :: exn + string list)
   \<and> get_driver (\<lambda>_. Inl (py_exc ''FileNotFoundError'')) ''drivers/chrome''
        = Inl (py_exc ''FileNotFoundError'')
   \<and> isl (get_driver no_binaries ''drivers/chrome'')
   \<and> import_driver_module no_binaries = Inl (py_exc ''IndexError'')
   \<and> main_py (stub 3) no_binaries (scenario_file paths) still ''03_11_2026'' fs0 =
       (Inl (py_exc ''IndexError''), fs0)
   \<and> instantiate no_chrome paths ChromeDriver (Some (AvailableUserAgents ! 0)) (fresh (0, 100)) =
       (Inl (py_exc ''WebDriverException''),
        \<lparr>ext = (0, 100), stdout = [Mode_normal ''WebDriver: Mode = Normal.''], close_calls = 0\<rparr>)
   \<and> test_expandable no_chrome paths ChromeDriver (fresh (0, 100)) =
       (Inl (py_exc ''WebDriverException''),
        \<lparr>ext = (0, 100), stdout = [Mode_normal ''WebDriver: Mode = Normal.''], close_calls = 0\<rparr>)"
proof -
  note h = no_chrome_instantiate[of 100]
  note a = construction_failure[of no_binaries "''drivers/chrome''" "py_exc ''IndexError''"
      "stub 3" "scenario_file paths" still "''03_11_2026''" fs0
      no_chrome paths ChromeDriver "fresh (0, 100)" "py_exc ''WebDriverException''"
      "\<lparr>ext = (0, 100), stdout = [Mode_normal ''WebDriver: Mode = Normal.''], close_calls = 0\<rparr>"]
  note b = construction_failure[of "\<lambda>_. Inl (py_exc ''FileNotFoundError'')" "''drivers/chrome''" "py_exc ''FileNotFoundError''"
      "stub 3" "scenario_file paths" still "''03_11_2026''" fs0
      no_chrome paths ChromeDriver "fresh (0, 100)" "py_exc ''WebDriverException''"
      "\<lparr>ext = (0, 100), stdout = [Mode_normal ''WebDriver: Mode = Normal.''], close_calls = 0\<rparr>"]
  have l: "no_binaries ''drivers/chrome'' = Inr []"
    by (simp add: no_binaries_def)
  have g: "isl (get_driver no_binaries ''drivers/chrome'')"
    by (simp add: get_driver_def no_binaries_def)
  have i: "import_driver_module no_binaries = Inl (py_exc ''IndexError'')"
    by (simp add: import_driver_module_def get_driver_def no_binaries_def)
  from a b h g l i show ?thesis by auto
qed

section \<open>Properties of the elapsed time\<close>

lemma round2_grid: "\<exists>k::int. round2 x = of_int k / 100"
  by (simp add: round2_def Let_def)

lemma round2_nonneg: "0 \<le> x \<Longrightarrow> 0 \<le> round2 x"
  by (auto simp: round2_def Let_def)

lemma stop_set:
  assumes "now s = (t, s')" and "t \<noteq> 0"
  shows "stop now tm s =
           ((round2 (t - start_time tm), tm\<lparr>end_time := t, elapsed := t - start_time tm\<rparr>), s')"
  using assms by (simp add: stop_def elapsed_seconds_def set_elapsed_seconds_def Let_def)

lemma elapsed_seconds_stopped:
  "end_time tm \<noteq> 0 \<Longrightarrow>
     elapsed_seconds now tm s =
       ((round2 (end_time tm - start_time tm), tm\<lparr>elapsed := end_time tm - start_time tm\<rparr>), s)"
  by (simp add: elapsed_seconds_def)

text \<open>
  Claim C6, as amended. In an invocation of \<open>test_expandable\<close> whose driver has been built,
  let \<open>t0\<close> be the clock reading taken right after the construction and \<open>t1\<close> the first
  clock reading after the scenario call has returned or raised (it is taken by
  \<open>timer.stop()\<close> when the scenario returned, and by the property \<open>elapsed_seconds\<close> in
  the handler, before \<open>timer.stop()\<close>, when it raised). Then the elapsed-seconds field
  of the record is \<open>t1 - t0\<close> rounded to two decimal places, on both paths; it is a
  multiple of \<open>1/100\<close>, and it is not negative when \<open>t0 \<le> t1\<close>. On the path where the
  scenario returned, \<open>t1\<close> must not be \<open>0\<close>, the value by which the timer recognises that
  it has not been stopped. A record is returned whenever the scenario call returns or
  raises an instance of \<open>Exception\<close>, and every record that is returned has this field.
\<close>

theorem elapsed_seconds_field:
  assumes "instantiate D M c (Some (AvailableUserAgents ! 0)) p = (Inr driver, p1)"
    and "wd_now D (ext p1) = (t0, w2)"
    and "test_scenario (scenario_file M) D w2 = (r, w3)"
    and "wd_now D w3 = (t1, w4)"
    and "r = Inr () \<longrightarrow> t1 \<noteq> 0"
  shows "((\<forall>e. r = Inl e \<longrightarrow> is_exception e) \<longrightarrow>
            (\<exists>rec. fst (test_expandable D M c p) = Inr rec
               \<and> rec ! 2 = PFloat (round2 (t1 - t0))))
         \<and> (\<forall>rec. fst (test_expandable D M c p) = Inr rec
               \<longrightarrow> rec ! 2 = PFloat (round2 (t1 - t0)))
         \<and> (\<exists>k::int. round2 (t1 - t0) = of_int k / 100)
         \<and> (t0 \<le> t1 \<longrightarrow> 0 \<le> round2 (t1 - t0))"
proof -
  let ?timer = "\<lparr>start_time = t0, end_time = 0, elapsed = 0\<rparr>"
  have st: "start (now_p D) TimeMeasure_init p1 = ((t0, ?timer), p1\<lparr>ext := w2\<rparr>)"
    using assms(2) by (simp add: start_def now_p_def TimeMeasure_init_def)
  have sc: "test_scenario (scenario_file M) D (ext (p1\<lparr>ext := w2\<rparr>)) = (r, w3)"
    using assms(3) by simp
  have field: "\<exists>rec. fst (test_expandable D M c p) = Inr rec
                 \<and> rec ! 2 = PFloat (round2 (t1 - t0))"
    if handled: "\<forall>e. r = Inl e \<longrightarrow> is_exception e"
  proof (cases r)
    case (Inl e)
    with handled have ex: "is_exception e" by simp
    let ?q = "print (Test_failed_at (last (recorder_frame (scenario_file M) # tb e))) (p1\<lparr>ext := w3\<rparr>)"
    have el: "elapsed_seconds (now_p D) ?timer ?q =
                ((round2 (t1 - t0), ?timer\<lparr>elapsed := t1 - t0\<rparr>), ?q\<lparr>ext := w4\<rparr>)"
      using assms(4) by (simp add: elapsed_seconds_def now_p_def print_def)
    from Inl sc have sc': "test_scenario (scenario_file M) D (ext (p1\<lparr>ext := w2\<rparr>)) = (Inl e, w3)" by simp
    show ?thesis
      unfolding test_expandable_raised[OF assms(1) st sc' ex]
      using el by (simp split: prod.splits)
  next
    case (Inr u)
    with assms(5) have nz: "t1 \<noteq> 0" by simp
    have np: "now_p D (p1\<lparr>ext := w3\<rparr>) = (t1, p1\<lparr>ext := w4\<rparr>)"
      using assms(4) by (simp add: now_p_def)
    from Inr sc have sc': "test_scenario (scenario_file M) D (ext (p1\<lparr>ext := w2\<rparr>)) = (Inr u, w3)" by simp
    have stp: "stop (now_p D) ?timer (p1\<lparr>ext := w3\<rparr>) =
                 ((round2 (t1 - t0), ?timer\<lparr>end_time := t1, elapsed := t1 - t0\<rparr>),
                  p1\<lparr>ext := w4\<rparr>)"
      using stop_set[of "now_p D" "p1\<lparr>ext := w3\<rparr>" t1 "p1\<lparr>ext := w4\<rparr>" ?timer] np nz
      by simp
    show ?thesis
      unfolding test_expandable_ok[OF assms(1) st sc']
      using nz by (simp add: stp elapsed_seconds_stopped)
  qed
  have every: "rec ! 2 = PFloat (round2 (t1 - t0))"
    if rec: "fst (test_expandable D M c p) = Inr rec" for rec
  proof (cases "\<forall>e. r = Inl e \<longrightarrow> is_exception e")
    case True
    from field[OF True] rec show ?thesis by auto
  next
    case False
    then obtain e where r: "r = Inl e" and ne: "\<not> is_exception e" by blast
    from r sc have sc': "test_scenario (scenario_file M) D (ext (p1\<lparr>ext := w2\<rparr>)) = (Inl e, w3)" by simp
    from rec show ?thesis
      unfolding test_expandable_passes_on[OF assms(1) st sc' ne]
      by (simp split: prod.splits)
  qed
  from field every round2_grid[of "t1 - t0"] round2_nonneg[of "t1 - t0"] show ?thesis
    by auto
qed

lemma stub_test_expandable_chrome:
  "test_expandable (stub 3) paths ChromeDriver (fresh (0, 100)) =
     (Inr [PInt 1, PStr ''chrome'', PFloat (3 / 2), PStr [], PStr [], PStr [], PStr [], PStr []],
      \<lparr>ext = (5, 203 / 2), stdout = [Mode_normal ''WebDriver: Mode = Normal.''], close_calls = 1\<rparr>)"
proof -
  note h1 = stub_instantiate_chrome[of 3 100]
  note h2 = stub_start[of 3 100 "[Mode_normal ''WebDriver: Mode = Normal.'']"]
  have h3: "test_scenario (scenario_file paths) (stub 3)
               (ext \<lparr>ext = (0, 100), stdout = [Mode_normal ''WebDriver: Mode = Normal.''],
                     close_calls = 0\<rparr>) = (Inr (), (5, 100 + 3 / 2))"
    using stub_scenario_ok[of "scenario_file paths" 100] by simp
  have r: "round2 (3 / 2) = 3 / 2"
    by (simp add: round2_def Let_def)
  have stp: "stop (now_p (stub 3)) \<lparr>start_time = 100, end_time = 0, elapsed = 0\<rparr>
               \<lparr>ext = (5, 203 / 2), stdout = out, close_calls = n\<rparr> =
             ((3 / 2, \<lparr>start_time = 100, end_time = 203 / 2, elapsed = 3 / 2\<rparr>),
              \<lparr>ext = (5, 203 / 2), stdout = out, close_calls = n\<rparr>)" for out n
    using stop_set[of "now_p (stub 3)" "\<lparr>ext = (5, 203 / 2), stdout = out, close_calls = n\<rparr>"
        "203 / 2" "\<lparr>ext = (5, 203 / 2), stdout = out, close_calls = n\<rparr>"
        "\<lparr>start_time = 100, end_time = 0, elapsed = 0\<rparr>"]
    by (simp add: now_p_def stub_def r)
  have cl: "wd_close (stub 3) w = w" for w
    by (simp add: stub_def)
  show ?thesis
    unfolding test_expandable_ok[OF h1 h2 h3]
    by (simp add: stp elapsed_seconds_stopped close_def cl r)
qed

text \<open>
  The field is not truncated to whole seconds when the timer has been stopped.
  \<open>timer.stop()\<close> runs in every invocation, and in the run below 1.5 seconds pass
  between the two readings: the field of the returned record is \<open>3/2\<close>, and so is the
  value \<open>stop\<close> itself returns, while the difference truncated to whole seconds is \<open>1\<close>.
  The truncated value that \<open>stop\<close> stores through the setter is overwritten by the next
  read of the property.
\<close>

theorem elapsed_not_truncated_counterexample:
  "fst (test_expandable (stub 3) paths ChromeDriver (fresh (0, 100))) =
     Inr [PInt 1, PStr ''chrome'', PFloat (3 / 2), PStr [], PStr [], PStr [], PStr [], PStr []]
   \<and> fst (fst (stop (wd_now (stub 3)) \<lparr>start_time = 100, end_time = 0, elapsed = 0\<rparr> (5, 203 / 2)))
       = 3 / 2
   \<and> (3 / 2 :: rat) \<noteq> of_int (py_int (203 / 2 - 100))"
proof -
  have np: "wd_now (stub 3) (5, 203 / 2) = (203 / 2, (5, 203 / 2))"
    by (simp add: stub_def)
  have r: "round2 (3 / 2) = 3 / 2"
    by (simp add: round2_def Let_def)
  have t: "py_int (3 / 2) = 1"
    by (simp add: py_int_def floor_eq_iff)
  have stp: "stop (wd_now (stub 3)) \<lparr>start_time = 100, end_time = 0, elapsed = 0\<rparr> (5, 203 / 2) =
               ((3 / 2, \<lparr>start_time = 100, end_time = 203 / 2, elapsed = 3 / 2\<rparr>), (5, 203 / 2))"
    using stop_set[of "wd_now (stub 3)" "(5, 203 / 2)" "203 / 2" "(5, 203 / 2)"
        "\<lparr>start_time = 100, end_time = 0, elapsed = 0\<rparr>"] np
    by (simp add: r)
  show ?thesis
    by (simp add: stub_test_expandable_chrome stp t)
qed

text \<open>
  The double \<open>stub 3\<close>, whose scenario returns, and the double \<open>stub 0\<close>, whose
  scenario raises an \<open>AssertionError\<close>, satisfy the hypotheses of the amended claim.
\<close>

theorem elapsed_seconds_field_witness:
  "instantiate (stub 3) paths ChromeDriver (Some (AvailableUserAgents ! 0)) (fresh (0, 100)) =
     (Inr \<lparr>browser = ''chrome'',
           options = add_argument (''--user-agent='' @ AvailableUserAgents ! 0) Options,
           window_size = None\<rparr>,
      \<lparr>ext = (0, 100), stdout = [Mode_normal ''WebDriver: Mode = Normal.''], close_calls = 0\<rparr>)
   \<and> wd_now (stub 3) (0, 100) = (100, (0, 100))
   \<and> test_scenario (scenario_file paths) (stub 3) (0, 100) = (Inr (), (5, 203 / 2))
   \<and> wd_now (stub 3) (5, 203 / 2) = (203 / 2, (5, 203 / 2))
   \<and> (203 / 2 :: rat) \<noteq> 0
   \<and> (100 :: rat) \<le> 203 / 2
   \<and> (\<exists>rec. fst (test_expandable (stub 3) paths ChromeDriver (fresh (0, 100))) = Inr rec
         \<and> rec ! 2 = PFloat (round2 (203 / 2 - 100))
         \<and> 0 \<le> round2 (203 / 2 - 100))
   \<and> test_scenario (scenario_file paths) (stub 0) (0, 100) =
       (Inl \<lparr>exc_type = ''AssertionError'', is_exception = True,
             tb = [sf (scenario_file paths) 31 ''assert banner_element.is_displayed()  # Check if displayed'']\<rparr>, (1, 100))
   \<and> wd_now (stub 0) (1, 100) = (100, (1, 100))
   \<and> (\<exists>rec. fst (test_expandable (stub 0) paths ChromeDriver (fresh (0, 100))) = Inr rec
         \<and> rec ! 2 = PFloat (round2 (100 - 100)))"
proof -
  note h1 = stub_instantiate_chrome[of 3 100]
  have h2: "wd_now (stub 3)
              (ext \<lparr>ext = (0, 100), stdout = [Mode_normal ''WebDriver: Mode = Normal.''],
                    close_calls = 0\<rparr>) = (100, (0, 100))"
    by (simp add: stub_def)
  have h3: "test_scenario (scenario_file paths) (stub 3) (0, 100) = (Inr (), (5, 203 / 2))"
    using stub_scenario_ok[of "scenario_file paths" 100] by simp
  have h4: "wd_now (stub 3) (5, 203 / 2) = (203 / 2, (5, 203 / 2))"
    by (simp add: stub_def)
  have h5: "(Inr () :: exn + unit) = Inr () \<longrightarrow> (203 / 2 :: rat) \<noteq> 0"
    by simp
  note g1 = stub_instantiate_chrome[of 0 100]
  have g2: "wd_now (stub 0)
              (ext \<lparr>ext = (0, 100), stdout = [Mode_normal ''WebDriver: Mode = Normal.''],
                    close_calls = 0\<rparr>) = (100, (0, 100))"
    by (simp add: stub_def)
  note g3 = stub_scenario_fails[of "scenario_file paths" 100]
  have g4: "wd_now (stub 0) (1, 100) = (100, (1, 100))"
    by (simp add: stub_def)
  have g5: "Inl \<lparr>exc_type = ''AssertionError'', is_exception = True,
                 tb = [sf (scenario_file paths) 31 ''assert banner_element.is_displayed()  # Check if displayed'']\<rparr>
              = (Inr () :: exn + unit) \<longrightarrow> (100 :: rat) \<noteq> 0"
    by simp
  from elapsed_seconds_field[OF h1 h2 h3 h4 h5] elapsed_seconds_field[OF g1 g2 g3 g4 g5]
    h1 h2 h3 h4 g3 g4
  show ?thesis
    by auto
qed

section \<open>Properties of the result log\<close>

lemma header_not_record: "header \<noteq> PInt b # rest"
  by (simp add: header_def)

lemma executor_map_no_header:
  assumes "executor_map D M ws drivers = Inr res"
  shows "header \<notin> set res"
proof
  assume "header \<in> set res"
  from assms have em: "executor_map D M ((\<lambda>_. ws) (0::nat)) drivers = Inr res" by simp
  note recs = executor_map_records[of D M "\<lambda>_. ws" 0 res, OF em]
  from \<open>header \<in> set res\<close> recs(1)
  obtain j where j: "j < length drivers" and h: "header = record_of D M (\<lambda>_. ws) 0 j"
    by auto
  from recs(2) j h
  have "fst (test_expandable D M (drivers ! j) (fresh (ws j))) = Inr header"
    by simp
  then obtain q where "test_expandable D M (drivers ! j) (fresh (ws j)) = (Inr header, q)"
    by (metis prod.collapse)
  from test_expandable_shape[OF this] show False
    by (auto simp: header_not_record)
qed

lemma append_snd:
  assumes "isfile fs p"
  shows "\<exists>rs'. snd (append_to_csv_file p (map PList res) fs) p = Some (File (rows_of fs p @ rs'))
           \<and> set rs' \<subseteq> set res"
proof -
  from assms obtain rows where f: "fs p = Some (File rows)"
    by (auto simp: isfile_def split: option.splits node.splits)
  then have r: "rows_of fs p = rows" by (simp add: rows_of_def)
  show ?thesis
  proof (cases "open_check fs p")
    case (Some e)
    then have "snd (append_to_csv_file p (map PList res) fs) = fs"
      by (simp add: append_to_csv_file_def bnd_def open_a_def)
    with f r show ?thesis by (intro exI[of _ "[]"]) simp
  next
    case None
    show ?thesis
    proof (cases res)
      case Nil
      with None have "snd (append_to_csv_file p (map PList res) fs) = fs(p \<mapsto> File (rows_of fs p))"
        by (simp add: append_to_csv_file_def bnd_def open_a_def raise_def)
      then show ?thesis by (intro exI[of _ "[]"]) simp
    next
      case (Cons a as)
      with None have "snd (append_to_csv_file p (map PList res) fs)
                        = fs(p \<mapsto> File (rows_of fs p @ res))"
        by (simp add: append_to_csv_file_def bnd_def open_a_def is_list_def
            writerows_lists[of p "a # as", simplified] rows_of_upd)
      then show ?thesis by (intro exI[of _ res]) simp
    qed
  qed
qed

lemma main_loop_header:
  assumes "isfile fs file" and "count_list (rows_of fs file) header = 1"
  shows "isfile (snd (main_loop D M worlds file i n fs)) file
         \<and> count_list (rows_of (snd (main_loop D M worlds file i n fs)) file) header = 1"
  using assms
proof (induction n arbitrary: i fs)
  case 0
  then show ?case by simp
next
  case (Suc n)
  show ?case
  proof (cases "executor_map D M (worlds i) drivers")
    case (Inl e)
    with Suc.prems show ?thesis by simp
  next
    case (Inr res)
    let ?fs1 = "snd (append_to_csv_file file (map PList res) fs)"
    from append_snd[OF Suc.prems(1), of res] obtain rs' where
      f1: "?fs1 file = Some (File (rows_of fs file @ rs'))" and sub: "set rs' \<subseteq> set res"
      by blast
    from executor_map_no_header[OF Inr] sub have "header \<notin> set rs'" by blast
    then have "count_list rs' header = 0" by (simp add: count_list_0_iff)
    with f1 Suc.prems(2) have inv1: "isfile ?fs1 file" "count_list (rows_of ?fs1 file) header = 1"
      by (simp_all add: isfile_def rows_of_def)
    show ?thesis
    proof (cases "append_to_csv_file file (map PList res) fs")
      case (Pair r fs1)
      with inv1 have i1: "isfile fs1 file" "count_list (rows_of fs1 file) header = 1" by simp_all
      show ?thesis
      proof (cases r)
        case (Inl e)
        with Inr Pair i1 show ?thesis by simp
      next
        case r: (Inr u)
        with Inr Pair Suc.IH[OF i1] show ?thesis by simp
      qed
    qed
  qed
qed

lemma create_csv_file_existing: "isfile fs p \<Longrightarrow> create_csv_file p h fs = (Inr (), fs)"
  by (simp add: create_csv_file_def)

lemma create_csv_file_absent:
  "\<not> isfile fs p \<Longrightarrow> open_check fs p = None \<Longrightarrow>
     create_csv_file p h fs = (Inr (), fs(p \<mapsto> File [h]))"
  by (simp add: create_csv_file_def bnd_def open_w_def writerow_def rows_of_upd)

lemma create_csv_file_refused:
  "\<not> isfile fs p \<Longrightarrow> open_check fs p = Some e \<Longrightarrow> create_csv_file p h fs = (Inl e, fs)"
  by (simp add: create_csv_file_def bnd_def open_w_def)

lemma main_header:
  assumes "isfile fs (log_filename d) \<longrightarrow> count_list (rows_of fs (log_filename d)) header = 1"
  shows "isfile (snd (main D M worlds d N fs)) (log_filename d)
           \<longrightarrow> count_list (rows_of (snd (main D M worlds d N fs)) (log_filename d)) header = 1"
proof (cases "isfile fs (log_filename d)")
  case True
  with assms have "count_list (rows_of fs (log_filename d)) header = 1"
    by simp
  from main_loop_header[where D = D and M = M and worlds = worlds and i = 0 and n = "nat N",
      OF True this] True show ?thesis
    by (simp add: main_def bnd_def create_csv_file_existing)
next
  case False
  show ?thesis
  proof (cases "open_check fs (log_filename d)")
    case None
    let ?fs1 = "fs(log_filename d \<mapsto> File [header])"
    have "isfile ?fs1 (log_filename d)" "count_list (rows_of ?fs1 (log_filename d)) header = 1"
      by (simp_all add: isfile_upd rows_of_upd)
    from main_loop_header[where D = D and M = M and worlds = worlds and i = 0 and n = "nat N",
        OF this] show ?thesis
      by (simp add: main_def bnd_def create_csv_file_absent[OF False None])
  next
    case (Some e)
    with False show ?thesis
      by (simp add: main_def bnd_def create_csv_file_refused[OF False Some])
  qed
qed

lemma runs_header:
  "isfile fs (log_filename d) \<longrightarrow> count_list (rows_of fs (log_filename d)) header = 1 \<Longrightarrow>
   isfile (runs D M d rs fs) (log_filename d)
     \<longrightarrow> count_list (rows_of (runs D M d rs fs) (log_filename d)) header = 1"
proof (induction rs arbitrary: fs)
  case Nil
  then show ?case by simp
next
  case (Cons a rs)
  obtain N worlds where a: "a = (N, worlds)" by (cases a)
  from Cons.IH[OF main_header[OF Cons.prems, of D M worlds N]] a show ?case by simp
qed

text \<open>
  Claim C8. \<open>create_csv_file\<close> called on a path that is an existing file changes nothing:
  the whole file system, and so the whole content of the file, stays as it was. On a
  path that is not yet a file it writes exactly the header row when the file can be
  opened, and changes nothing when it cannot. Hence, after any number of runs of the
  harness on the same day that started without the log file, a log file that exists
  contains the header row exactly once.
\<close>

theorem create_csv_file_header_once:
  "(isfile fs p \<longrightarrow> create_csv_file p h fs = (Inr (), fs))
   \<and> (\<not> isfile fs p \<and> open_check fs p = None
        \<longrightarrow> create_csv_file p h fs = (Inr (), fs(p \<mapsto> File [h])))
   \<and> (\<not> isfile fs p \<and> open_check fs p \<noteq> None \<longrightarrow> snd (create_csv_file p h fs) = fs)
   \<and> (\<not> isfile fs (log_filename d) \<and> isfile (runs D M d rs fs) (log_filename d)
        \<longrightarrow> count_list (rows_of (runs D M d rs fs) (log_filename d)) header = 1)"
proof -
  have "isfile fs (log_filename d) \<longrightarrow> count_list (rows_of fs (log_filename d)) header = 1"
    if "\<not> isfile fs (log_filename d)"
    using that by simp
  from runs_header[OF this] show ?thesis
    by (auto simp: create_csv_file_existing create_csv_file_absent create_csv_file_refused)
qed

lemma length_batches: "length (concat (map (\<lambda>i. map (f i) [0..<m]) [0..<n])) = n * m"
  by (induction n) simp_all

lemma main_rows:
  assumes "main D M worlds d N fs = (Inr u, fs')"
  shows "rows_of fs' (log_filename d) =
           (if isfile fs (log_filename d) then rows_of fs (log_filename d) else [header])
           @ concat (map (\<lambda>i. map (record_of D M worlds i) [0..<length drivers]) [0..<nat N])"
    and "\<forall>i<nat N. \<forall>j<length drivers.
           fst (test_expandable D M (drivers ! j) (fresh (worlds i j)))
             = Inr (record_of D M worlds i j)"
proof -
  from assms obtain fs1 where
    cr: "create_csv_file (log_filename d) header fs = (Inr (), fs1)"
    and lp: "main_loop D M worlds (log_filename d) 0 (nat N) fs1 = (Inr u, fs')"
    by (auto simp: main_def bnd_def split: prod.splits sum.splits)
  have base: "rows_of fs1 (log_filename d) =
                (if isfile fs (log_filename d) then rows_of fs (log_filename d) else [header])"
  proof (cases "isfile fs (log_filename d)")
    case True
    with cr show ?thesis by (simp add: create_csv_file_existing)
  next
    case False
    show ?thesis
    proof (cases "open_check fs (log_filename d)")
      case None
      with cr False show ?thesis
        by (auto simp: create_csv_file_absent rows_of_upd)
    next
      case (Some e)
      with cr False show ?thesis by (simp add: create_csv_file_refused)
    qed
  qed
  note ml = main_loop_rows[OF lp]
  from ml base show "rows_of fs' (log_filename d) =
           (if isfile fs (log_filename d) then rows_of fs (log_filename d) else [header])
           @ concat (map (\<lambda>i. map (record_of D M worlds i) [0..<length drivers]) [0..<nat N])"
    by simp
  from ml show "\<forall>i<nat N. \<forall>j<length drivers.
           fst (test_expandable D M (drivers ! j) (fresh (worlds i j)))
             = Inr (record_of D M worlds i j)"
    by simp
qed

text \<open>
  Claim C1. A run of \<open>main\<close> with repeat count \<open>N\<close> that returns leaves in the log the rows
  that were there before (or the header alone, when the file did not exist) followed by
  exactly \<open>N\<close> times \<open>B\<close> new rows, \<open>B\<close> being the number of registered drivers: for every
  iteration and every driver, in this order, the record that \<open>test_expandable\<close> returned
  in the worker of that pair. With \<open>N = 0\<close> and no file before, the log holds the header
  and nothing else.
\<close>

theorem main_appends_rows:
  assumes "main D M worlds d N fs = (Inr (), fs')"
  shows "rows_of fs' (log_filename d) =
           (if isfile fs (log_filename d) then rows_of fs (log_filename d) else [header])
           @ concat (map (\<lambda>i. map (record_of D M worlds i) [0..<length drivers]) [0..<nat N])
         \<and> length (concat (map (\<lambda>i. map (record_of D M worlds i) [0..<length drivers])
                      [0..<nat N])) = nat N * length drivers
         \<and> length drivers = length AvailableBrowserDrivers
         \<and> (\<forall>i<nat N. \<forall>j<length drivers.
               fst (test_expandable D M (drivers ! j) (fresh (worlds i j)))
                 = Inr (record_of D M worlds i j))
         \<and> (N = 0 \<and> \<not> isfile fs (log_filename d) \<longrightarrow> rows_of fs' (log_filename d) = [header])"
  using main_rows[OF assms] length_batches[of "record_of D M worlds" "length drivers" "nat N"]
  by (auto simp: drivers_def)

lemma record_browser:
  assumes "fst (test_expandable D M (drivers ! j) p) = Inr r" and "j < length drivers"
  shows "r ! 1 = PStr (fst (AvailableBrowserDrivers ! j))"
proof -
  from assms(1) obtain q where "test_expandable D M (drivers ! j) p = (Inr r, q)"
    by (metis prod.collapse)
  from test_expandable_shape[OF this] obtain driver p1 b rest where
    i: "instantiate D M (drivers ! j) (Some (AvailableUserAgents ! 0)) p = (Inr driver, p1)"
    and r: "r = PInt b # PStr (browser driver) # rest"
    by blast
  from instantiate_browser[OF i] assms(2) have
    "browser driver = fst (AvailableBrowserDrivers ! j)"
    by (auto simp: drivers_eq AvailableBrowserDrivers_def less_Suc_eq)
  with r show ?thesis by simp
qed

lemma batch_browsers:
  assumes "\<forall>j<length drivers.
             fst (test_expandable D M (drivers ! j) (fresh (worlds i j)))
               = Inr (record_of D M worlds i j)"
  shows "map (\<lambda>r. r ! 1) (map (record_of D M worlds i) [0..<length drivers])
           = map (\<lambda>(name, c). PStr name) AvailableBrowserDrivers"
proof -
  have upt2: "[0..<2] = [0, Suc 0]" by (simp add: upt_rec)
  have len: "0 < length drivers" "1 < length drivers" by (simp_all add: drivers_eq)
  from assms len have
    a0: "fst (test_expandable D M (drivers ! 0) (fresh (worlds i 0))) = Inr (record_of D M worlds i 0)"
    and a1: "fst (test_expandable D M (drivers ! 1) (fresh (worlds i 1))) = Inr (record_of D M worlds i 1)"
    by blast+
  from record_browser[OF a0 len(1)] record_browser[OF a1 len(2)] show ?thesis
    by (simp add: drivers_eq upt2 AvailableBrowserDrivers_def)
qed

lemma batches_browsers:
  assumes "\<forall>i<n. map g (F i) = X"
  shows "map g (concat (map F [0..<n])) = concat (replicate n X)"
  using assms
proof (induction n)
  case 0
  then show ?case by simp
next
  case (Suc n)
  then have "map g (concat (map F [0..<n])) = concat (replicate n X)" by simp
  moreover from Suc.prems have "map g (F n) = X" by simp
  moreover have "replicate (Suc n) X = replicate n X @ [X]"
    by (simp add: replicate_append_same)
  ultimately show ?case
    by (simp add: map_concat del: replicate.simps)
qed

text \<open>
  Claim C7. In a run of \<open>main\<close> that returns, the browser fields of the rows appended are,
  iteration after iteration, the names of the registry in its order: \<open>chrome\<close>, then
  \<open>firefox\<close>. With repeat count 1 and no file before, the log is the header followed by
  two rows with browser \<open>chrome\<close> and \<open>firefox\<close>. The order in which the workers finish does
  not occur in \<open>executor.map\<close>, whose results are read in the order of its inputs.
\<close>

theorem rows_in_registration_order:
  assumes "main D M worlds d N fs = (Inr (), fs')"
  shows "map (\<lambda>r. r ! 1)
           (drop (length (if isfile fs (log_filename d) then rows_of fs (log_filename d)
                          else [header]))
              (rows_of fs' (log_filename d)))
           = concat (replicate (nat N) (map (\<lambda>(name, c). PStr name) AvailableBrowserDrivers))
         \<and> (N = 1 \<and> \<not> isfile fs (log_filename d) \<longrightarrow>
              (\<exists>r1 r2. rows_of fs' (log_filename d) = [header, r1, r2]
                 \<and> r1 ! 1 = PStr ''chrome'' \<and> r2 ! 1 = PStr ''firefox''))"
proof -
  let ?F = "\<lambda>i. map (record_of D M worlds i) [0..<length drivers]"
  let ?X = "map (\<lambda>(name, c). PStr name) AvailableBrowserDrivers"
  note mr = main_rows[OF assms]
  have each: "\<forall>i<nat N. map (\<lambda>r. r ! 1) (?F i) = ?X"
    using mr(2) batch_browsers[of D M worlds] by blast
  have cols: "map (\<lambda>r. r ! 1) (concat (map ?F [0..<nat N])) = concat (replicate (nat N) ?X)"
    using batches_browsers[OF each] .
  have first: "map (\<lambda>r. r ! 1)
           (drop (length (if isfile fs (log_filename d) then rows_of fs (log_filename d)
                          else [header]))
              (rows_of fs' (log_filename d))) = concat (replicate (nat N) ?X)"
    unfolding mr(1) using cols by simp
  have second: "\<exists>r1 r2. rows_of fs' (log_filename d) = [header, r1, r2]
                 \<and> r1 ! 1 = PStr ''chrome'' \<and> r2 ! 1 = PStr ''firefox''"
    if "N = 1" "\<not> isfile fs (log_filename d)"
  proof -
    have upt2: "[0..<2] = [0, Suc 0]" by (simp add: upt_rec)
    from that mr(1) have rows: "rows_of fs' (log_filename d) =
        [header, record_of D M worlds 0 0, record_of D M worlds 0 1]"
      by (simp add: drivers_eq upt2)
    from that each have "map (\<lambda>r. r ! 1) (?F 0) = ?X" by simp
    then have "record_of D M worlds 0 0 ! 1 = PStr ''chrome''"
      and "record_of D M worlds 0 1 ! 1 = PStr ''firefox''"
      by (simp_all add: drivers_eq upt2 AvailableBrowserDrivers_def)
    with rows show ?thesis by simp
  qed
  from first second show ?thesis by blast
qed

lemma stub_instantiate_firefox:
  "instantiate (stub v) paths FirefoxDriver (Some (AvailableUserAgents ! 0)) (fresh (0, t)) =
     (Inr \<lparr>browser = ''firefox'',
           options = set_preference ''general.useragent.override'' (AvailableUserAgents ! 0) Options,
           window_size = None\<rparr>,
      \<lparr>ext = (0, t), stdout = [Mode_normal ''WebDriver firefox: Mode = Normal.''], close_calls = 0\<rparr>)"
  by (simp add: instantiate_def FirefoxDriver_init_def Firefox_set_headless_def
      Firefox_set_user_agent_def truthy_str_def AvailableUserAgents_def bnd_def ret_def lift_def
      stub_def fresh_def print_def)

lemma stub_test_expandable_firefox:
  "test_expandable (stub 3) paths FirefoxDriver (fresh (0, 100)) =
     (Inr [PInt 1, PStr ''firefox'', PFloat (3 / 2), PStr [], PStr [], PStr [], PStr [], PStr []],
      \<lparr>ext = (5, 203 / 2), stdout = [Mode_normal ''WebDriver firefox: Mode = Normal.''],
        close_calls = 1\<rparr>)"
proof -
  note h1 = stub_instantiate_firefox[of 3 100]
  note h2 = stub_start[of 3 100 "[Mode_normal ''WebDriver firefox: Mode = Normal.'']"]
  have h3: "test_scenario (scenario_file paths) (stub 3)
               (ext \<lparr>ext = (0, 100), stdout = [Mode_normal ''WebDriver firefox: Mode = Normal.''],
                     close_calls = 0\<rparr>) = (Inr (), (5, 100 + 3 / 2))"
    using stub_scenario_ok[of "scenario_file paths" 100] by simp
  have r: "round2 (3 / 2) = 3 / 2"
    by (simp add: round2_def Let_def)
  have stp: "stop (now_p (stub 3)) \<lparr>start_time = 100, end_time = 0, elapsed = 0\<rparr>
               \<lparr>ext = (5, 203 / 2), stdout = out, close_calls = n\<rparr> =
             ((3 / 2, \<lparr>start_time = 100, end_time = 203 / 2, elapsed = 3 / 2\<rparr>),
              \<lparr>ext = (5, 203 / 2), stdout = out, close_calls = n\<rparr>)" for out n
    using stop_set[of "now_p (stub 3)" "\<lparr>ext = (5, 203 / 2), stdout = out, close_calls = n\<rparr>"
        "203 / 2" "\<lparr>ext = (5, 203 / 2), stdout = out, close_calls = n\<rparr>"
        "\<lparr>start_time = 100, end_time = 0, elapsed = 0\<rparr>"]
    by (simp add: now_p_def stub_def r)
  have cl: "wd_close (stub 3) w = w" for w
    by (simp add: stub_def)
  show ?thesis
    unfolding test_expandable_ok[OF h1 h2 h3]
    by (simp add: stp elapsed_seconds_stopped close_def cl r)
qed

lemma stub_executor_map:
  "executor_map (stub 3) paths (\<lambda>j. (0, 100)) drivers =
     Inr [[PInt 1, PStr ''chrome'', PFloat (3 / 2), PStr [], PStr [], PStr [], PStr [], PStr []],
          [PInt 1, PStr ''firefox'', PFloat (3 / 2), PStr [], PStr [], PStr [], PStr [], PStr []]]"
  by (simp add: executor_map_def drivers_eq stub_test_expandable_chrome stub_test_expandable_firefox)

lemma stub_main:
  "main (stub 3) paths (\<lambda>i j. (0, 100)) ''03_11_2026'' 1 fs0 =
     (Inr (),
      fs0(log_filename ''03_11_2026'' \<mapsto> File
        [header,
         [PInt 1, PStr ''chrome'', PFloat (3 / 2), PStr [], PStr [], PStr [], PStr [], PStr []],
         [PInt 1, PStr ''firefox'', PFloat (3 / 2), PStr [], PStr [], PStr [], PStr [], PStr []]]))"
  by (simp add: main_def bnd_def create_csv_file_absent[OF fs0_absent fs0_open_check]
      stub_executor_map append_to_csv_file_def open_a_def fs0_open_check' is_list_def
      writerow_def rows_of_upd)

lemma main_zero_existing: "isfile fs (log_filename d) \<Longrightarrow> main D M worlds d 0 fs = (Inr (), fs)"
  by (simp add: main_def bnd_def create_csv_file_existing)

lemma stub_main_zero:
  "main (stub 3) paths (\<lambda>i j. (0, 100)) ''03_11_2026'' 0 fs0 =
     (Inr (), fs0(log_filename ''03_11_2026'' \<mapsto> File [header]))"
  by (simp add: main_def bnd_def create_csv_file_absent[OF fs0_absent fs0_open_check])

text \<open>
  Two runs on the double \<open>stub 3\<close>, starting without a log file, satisfy the hypotheses
  of the theorem on the appended rows: one with repeat count 1, which leaves the header
  and two rows, and one with
  repeat count 0, which leaves the header alone.
\<close>

theorem main_appends_rows_witness:
  "main (stub 3) paths (\<lambda>i j. (0, 100)) ''03_11_2026'' 1 fs0 =
     (Inr (),
      fs0(log_filename ''03_11_2026'' \<mapsto> File
        [header,
         [PInt 1, PStr ''chrome'', PFloat (3 / 2), PStr [], PStr [], PStr [], PStr [], PStr []],
         [PInt 1, PStr ''firefox'', PFloat (3 / 2), PStr [], PStr [], PStr [], PStr [], PStr []]]))
   \<and> [header,
       [PInt 1, PStr ''chrome'', PFloat (3 / 2), PStr [], PStr [], PStr [], PStr [], PStr []],
       [PInt 1, PStr ''firefox'', PFloat (3 / 2), PStr [], PStr [], PStr [], PStr [], PStr []]]
      = [header] @ concat (map (\<lambda>i. map (record_of (stub 3) paths (\<lambda>i j. (0, 100)) i)
                                   [0..<length drivers]) [0..<nat 1])
   \<and> length (concat (map (\<lambda>i. map (record_of (stub 3) paths (\<lambda>i j. (0, 100)) i)
                                   [0..<length drivers]) [0..<nat 1])) = nat 1 * length drivers
   \<and> length drivers = 2
   \<and> main (stub 3) paths (\<lambda>i j. (0, 100)) ''03_11_2026'' 0 fs0 =
       (Inr (), fs0(log_filename ''03_11_2026'' \<mapsto> File [header]))
   \<and> \<not> isfile fs0 (log_filename ''03_11_2026'')
   \<and> rows_of (fs0(log_filename ''03_11_2026'' \<mapsto> File [header])) (log_filename ''03_11_2026'')
       = [header]"
proof -
  note one = main_appends_rows[OF stub_main]
  note zero = main_appends_rows[OF stub_main_zero]
  from one zero stub_main stub_main_zero show ?thesis
    by (simp add: fs0_absent rows_of_upd AvailableBrowserDrivers_def)
qed

text \<open>
  The run with repeat count 1 on the double \<open>stub 3\<close> satisfies the hypotheses of the
  theorem on the order of the rows.
\<close>

theorem rows_in_registration_order_witness:
  "main (stub 3) paths (\<lambda>i j. (0, 100)) ''03_11_2026'' 1 fs0 =
     (Inr (),
      fs0(log_filename ''03_11_2026'' \<mapsto> File
        [header,
         [PInt 1, PStr ''chrome'', PFloat (3 / 2), PStr [], PStr [], PStr [], PStr [], PStr []],
         [PInt 1, PStr ''firefox'', PFloat (3 / 2), PStr [], PStr [], PStr [], PStr [], PStr []]]))
   \<and> \<not> isfile fs0 (log_filename ''03_11_2026'')
   \<and> (\<exists>r1 r2. rows_of (fs0(log_filename ''03_11_2026'' \<mapsto> File
        [header,
         [PInt 1, PStr ''chrome'', PFloat (3 / 2), PStr [], PStr [], PStr [], PStr [], PStr []],
         [PInt 1, PStr ''firefox'', PFloat (3 / 2), PStr [], PStr [], PStr [], PStr [], PStr []]]))
          (log_filename ''03_11_2026'') = [header, r1, r2]
         \<and> r1 ! 1 = PStr ''chrome'' \<and> r2 ! 1 = PStr ''firefox'')"
proof -
  note one = rows_in_registration_order[OF stub_main]
  from one stub_main fs0_absent[of "''03_11_2026''"] show ?thesis
    by blast
qed

lemma stub_runs:
  "runs (stub 3) paths ''03_11_2026'' [(1, \<lambda>i j. (0, 100)), (0, \<lambda>i j. (0, 100))] fs0 =
     fs0(log_filename ''03_11_2026'' \<mapsto> File
        [header,
         [PInt 1, PStr ''chrome'', PFloat (3 / 2), PStr [], PStr [], PStr [], PStr [], PStr []],
         [PInt 1, PStr ''firefox'', PFloat (3 / 2), PStr [], PStr [], PStr [], PStr [], PStr []]])"
  by (simp add: stub_main main_zero_existing isfile_upd)

text \<open>
  An existing log file, a missing log file in an existing directory, a missing
  directory, and two successive runs on the double \<open>stub 3\<close> satisfy the hypotheses of
  the theorem on the header.
\<close>

theorem create_csv_file_header_once_witness:
  "isfile (fs0(log_filename ''03_11_2026'' \<mapsto> File [header])) (log_filename ''03_11_2026'')
   \<and> create_csv_file (log_filename ''03_11_2026'') header
        (fs0(log_filename ''03_11_2026'' \<mapsto> File [header]))
       = (Inr (), fs0(log_filename ''03_11_2026'' \<mapsto> File [header]))
   \<and> \<not> isfile fs0 (log_filename ''03_11_2026'')
   \<and> open_check fs0 (log_filename ''03_11_2026'') = None
   \<and> create_csv_file (log_filename ''03_11_2026'') header fs0
       = (Inr (), fs0(log_filename ''03_11_2026'' \<mapsto> File [header]))
   \<and> \<not> isfile (\<lambda>_. None) (log_filename ''03_11_2026'')
   \<and> open_check (\<lambda>_. None) (log_filename ''03_11_2026'') \<noteq> None
   \<and> snd (create_csv_file (log_filename ''03_11_2026'') header (\<lambda>_. None)) = (\<lambda>_. None)
   \<and> isfile (runs (stub 3) paths ''03_11_2026'' [(1, \<lambda>i j. (0, 100)), (0, \<lambda>i j. (0, 100))] fs0)
        (log_filename ''03_11_2026'')
   \<and> count_list
        (rows_of (runs (stub 3) paths ''03_11_2026'' [(1, \<lambda>i j. (0, 100)), (0, \<lambda>i j. (0, 100))] fs0)
           (log_filename ''03_11_2026'')) header = 1"
proof -
  note a = create_csv_file_header_once[of "fs0(log_filename ''03_11_2026'' \<mapsto> File [header])"
      "log_filename ''03_11_2026''" header "''03_11_2026''" "stub 3" paths
      "[(1, \<lambda>i j. (0, 100)), (0, \<lambda>i j. (0, 100))]"]
  note b = create_csv_file_header_once[of fs0
      "log_filename ''03_11_2026''" header "''03_11_2026''" "stub 3" paths
      "[(1, \<lambda>i j. (0, 100)), (0, \<lambda>i j. (0, 100))]"]
  note c = create_csv_file_header_once[of "\<lambda>_. None"
      "log_filename ''03_11_2026''" header "''03_11_2026''" "stub 3" paths
      "[(1, \<lambda>i j. (0, 100)), (0, \<lambda>i j. (0, 100))]"]
  have e: "\<not> isfile (\<lambda>_. None) (log_filename ''03_11_2026'')"
    by (simp add: isfile_def)
  have o: "open_check (\<lambda>_. None) (log_filename ''03_11_2026'') \<noteq> None"
    by (simp add: open_check_log parent_check_def log_dirname)
  have r: "isfile (runs (stub 3) paths ''03_11_2026'' [(1, \<lambda>i j. (0, 100)), (0, \<lambda>i j. (0, 100))] fs0)
             (log_filename ''03_11_2026'')"
    unfolding stub_runs by (rule isfile_upd)
  from a b c e o r fs0_absent[of "''03_11_2026''"] fs0_open_check isfile_upd show ?thesis
    by blast
qed

end
